theory Spec2Isabelle
  imports Main
begin

section \<open>Python text: bytes, str, and the library calls the controller makes\<close>

text \<open>
  \<^verbatim>\<open>pxssh.before\<close> is a \<^verbatim>\<open>bytes\<close> object: a list of 8-bit characters. A Python
  \<^verbatim>\<open>str\<close> is a list of Unicode code points, here natural numbers. \<open>lit\<close> turns an ASCII
  literal of the source into the \<^verbatim>\<open>str\<close> it denotes.
\<close>

type_synonym bytes = string
type_synonym pystr = "nat list"

definition lit :: "string \<Rightarrow> pystr" where
  "lit s = map of_char s"

datatype py_error = KeyError | UnicodeDecodeError

text \<open>\<^verbatim>\<open>bytes.split(sep)\<close> with a one-byte separator: the fields between the separators,
  so that \<^verbatim>\<open>b''.split(b'\n') == [b'']\<close> and a trailing separator gives a trailing empty
  field.\<close>

fun split :: "char \<Rightarrow> bytes \<Rightarrow> bytes list" where
  "split sep [] = [[]]"
| "split sep (c # cs) =
     (if c = sep then [] # split sep cs
      else (case split sep cs of
              [] \<Rightarrow> [[c]]
            | l # ls \<Rightarrow> (c # l) # ls))"

text \<open>The slice \<^verbatim>\<open>xs[1:-1]\<close>: from index 1 up to, not including, index \<open>len - 1\<close>;
  empty when the list has fewer than three elements.\<close>

definition slice_1_m1 :: "'a list \<Rightarrow> 'a list" where
  "slice_1_m1 xs = drop 1 (take (length xs - 1) xs)"

text \<open>
  \<^verbatim>\<open>bytes.decode('utf-8')\<close> with the default strict error handler: the well-formed byte
  sequences of the Unicode standard (no overlong forms, no surrogates, nothing above
  U+10FFFF); anything else raises \<^verbatim>\<open>UnicodeDecodeError\<close>, here \<open>None\<close>.
\<close>

definition cont :: "nat \<Rightarrow> bool" where
  "cont b = (128 \<le> b \<and> b < 192)"

fun utf8 :: "nat list \<Rightarrow> pystr option" where
  "utf8 [] = Some []"
| "utf8 (b0 # bs) =
     (if b0 < 128 then map_option ((#) b0) (utf8 bs)
      else if 194 \<le> b0 \<and> b0 < 224 then
        (case bs of
           b1 # r \<Rightarrow>
             if cont b1
             then map_option ((#) ((b0 - 192) * 64 + (b1 - 128))) (utf8 r)
             else None
         | _ \<Rightarrow> None)
      else if 224 \<le> b0 \<and> b0 < 240 then
        (case bs of
           b1 # b2 # r \<Rightarrow>
             if cont b1 \<and> cont b2 \<and> (b0 = 224 \<longrightarrow> 160 \<le> b1) \<and> (b0 = 237 \<longrightarrow> b1 < 160)
             then map_option
                    ((#) ((b0 - 224) * 4096 + (b1 - 128) * 64 + (b2 - 128))) (utf8 r)
             else None
         | _ \<Rightarrow> None)
      else if 240 \<le> b0 \<and> b0 < 245 then
        (case bs of
           b1 # b2 # b3 # r \<Rightarrow>
             if cont b1 \<and> cont b2 \<and> cont b3 \<and> (b0 = 240 \<longrightarrow> 144 \<le> b1)
                \<and> (b0 = 244 \<longrightarrow> b1 < 144)
             then map_option
                    ((#) ((b0 - 240) * 262144 + (b1 - 128) * 4096 + (b2 - 128) * 64
                          + (b3 - 128))) (utf8 r)
             else None
         | _ \<Rightarrow> None)
      else None)"

definition decode :: "bytes \<Rightarrow> py_error + pystr" where
  "decode b = (case utf8 (map of_char b) of
                 None \<Rightarrow> Inl UnicodeDecodeError
               | Some s \<Rightarrow> Inr s)"

text \<open>\<^verbatim>\<open>s.replace('\r', '')\<close>: every carriage return (code point 13) is removed.\<close>

definition remove_cr :: "pystr \<Rightarrow> pystr" where
  "remove_cr s = filter (\<lambda>c. c \<noteq> 13) s"

subsection \<open>The regular expression of the status dump\<close>

text \<open>
  In a \<^verbatim>\<open>str\<close> pattern \<^verbatim>\<open>\d\<close> matches every Unicode decimal digit (category Nd), not
  only \<^verbatim>\<open>0-9\<close>. The digits come in runs of ten consecutive code points, listed here by
  their first code point (Unicode 14.0); \<^verbatim>\<open>[a-z_]\<close> is ASCII only.
\<close>

definition nd_starts :: "nat list" where
  "nd_starts =
    [48, 1632, 1776, 1984, 2406, 2534, 2662, 2790, 2918, 3046, 3174, 3302, 3430, 3558,
     3664, 3792, 3872, 4160, 4240, 6112, 6160, 6470, 6608, 6784, 6800, 6992, 7088, 7232,
     7248, 42528, 43216, 43264, 43472, 43504, 43600, 44016, 65296, 66720, 68912, 69734,
     69872, 69942, 70096, 70384, 70736, 70864, 71248, 71360, 71472, 71904, 72016, 72784,
     73040, 73120, 92768, 92864, 93008, 120782, 120792, 120802, 120812, 120822, 123200,
     123632, 125264, 130032]"

definition is_digit :: "nat \<Rightarrow> bool" where
  "is_digit c = list_ex (\<lambda>s. s \<le> c \<and> c < s + 10) nd_starts"

definition is_name_char :: "nat \<Rightarrow> bool" where
  "is_name_char c = ((97 \<le> c \<and> c \<le> 122) \<or> c = 95)"

text \<open>\<^verbatim>\<open>$\<close> without the MULTILINE flag: at the end of the string, or just before a
  newline that is its last character.\<close>

definition at_end :: "pystr \<Rightarrow> bool" where
  "at_end r = (r = [] \<or> r = [10])"

text \<open>
  \<^verbatim>\<open>re.match(r'^([a-z_]+)(\d+):(\d+|\d+\.\d+)$', s)\<close>, returning \<^verbatim>\<open>match.groups()\<close>.
  Each \<^verbatim>\<open>+\<close> is greedy, and backing off from the longest run can never help: the
  character after a shorter run is again one of the run's class, where the pattern
  wants a digit, a colon, a full stop or the end. So each group is a longest run, and
  the second alternative of the third group is tried when the first does not reach the
  end.
\<close>

definition re_match :: "pystr \<Rightarrow> pystr list option" where
  "re_match s =
     (let g1 = takeWhile is_name_char s; r1 = dropWhile is_name_char s;
          g2 = takeWhile is_digit r1; r2 = dropWhile is_digit r1
      in if g1 = [] \<or> g2 = [] then None
         else (case r2 of
                 [] \<Rightarrow> None
               | c # r3 \<Rightarrow>
                   if c \<noteq> 58 then None
                   else (let i = takeWhile is_digit r3; r4 = dropWhile is_digit r3
                         in if i = [] then None
                            else if at_end r4 then Some [g1, g2, i]
                            else (case r4 of
                                    [] \<Rightarrow> None
                                  | p # r5 \<Rightarrow>
                                      if p \<noteq> 46 then None
                                      else (let f = takeWhile is_digit r5;
                                                r6 = dropWhile is_digit r5
                                            in if f \<noteq> [] \<and> at_end r6
                                               then Some [g1, g2, i @ [46] @ f]
                                               else None)))))"

section \<open>Python floats\<close>

text \<open>
  A \<^verbatim>\<open>float\<close> is an IEEE 754 double. The values the outlet can compute are not
  negative: \<open>Finite m e\<close> is \<open>m * 2 ^ e\<close> in the one form a double has, with
  \<open>m < 2 ^ 53\<close>, \<open>- 1074 \<le> e \<le> 971\<close> and \<open>2 ^ 52 \<le> m\<close> unless \<open>e = - 1074\<close>; \<open>Infinity\<close>
  is \<^verbatim>\<open>inf\<close>. Both \<^verbatim>\<open>float(s)\<close> and the division round the exact result to the nearest
  double, a tie to the one with the even mantissa; \<open>round_double a b\<close> does that for
  the fraction \<open>a / b\<close>.
\<close>

datatype double = Finite nat int | Infinity

text \<open>\<^verbatim>\<open>int.bit_length()\<close>.\<close>

fun bit_length :: "nat \<Rightarrow> nat" where
  "bit_length n = (if n = 0 then 0 else Suc (bit_length (n div 2)))"

text \<open>The integer \<open>e\<close> with \<open>2 ^ e \<le> a / b < 2 ^ (e + 1)\<close>, for positive \<open>a\<close> and \<open>b\<close>.\<close>

definition floor_log2 :: "nat \<Rightarrow> nat \<Rightarrow> int" where
  "floor_log2 a b =
     (let d = int (bit_length a) - int (bit_length b)
      in if (if 0 \<le> d then b * 2 ^ nat d \<le> a else b \<le> a * 2 ^ nat (- d)) then d else d - 1)"

text \<open>The integer nearest to \<open>a / b\<close>, the even one of two that are equally near.\<close>

definition round_half_even :: "nat \<Rightarrow> nat \<Rightarrow> nat" where
  "round_half_even a b =
     (let n = a div b; r = a mod b
      in if 2 * r < b then n
         else if b < 2 * r then n + 1
         else if even n then n else n + 1)"

text \<open>The unit of the last place is \<open>2 ^ u\<close>: 52 binary places below the leading bit,
  and never below \<open>2 ^ - 1074\<close>, the subnormal spacing. A mantissa that rounds up to
  \<open>2 ^ 53\<close> moves to the next exponent; above the largest exponent the result is \<^verbatim>\<open>inf\<close>.\<close>

definition round_double :: "nat \<Rightarrow> nat \<Rightarrow> double" where
  "round_double a b =
     (if a = 0 then Finite 0 (- 1074)
      else (let u = max (floor_log2 a b) (- 1022) - 52;
                n = (if 0 \<le> u then round_half_even a (b * 2 ^ nat u)
                     else round_half_even (a * 2 ^ nat (- u)) b)
            in if n = 2 ^ 53
               then (if 971 < u + 1 then Infinity else Finite (2 ^ 52) (u + 1))
               else if 971 < u then Infinity else Finite n u))"

text \<open>
  \<^verbatim>\<open>float(s)\<close> for a \<^verbatim>\<open>str\<close>. Every Unicode decimal digit counts as the ASCII digit of its
  value. The strings modelled are the decimal numerals, digits with an optional full
  stop and more digits, which is what the third group of the pattern matches and
  what a relay write stores; \<open>None\<close> says that the string is none of these, and then
  nothing is said about what \<^verbatim>\<open>float\<close> does with it (it accepts signs, exponents and
  other forms as well, and raises \<^verbatim>\<open>ValueError\<close> on the rest).
\<close>

definition digit_value :: "nat \<Rightarrow> nat" where
  "digit_value c =
     (case find (\<lambda>s. s \<le> c \<and> c < s + 10) nd_starts of None \<Rightarrow> 0 | Some s \<Rightarrow> c - s)"

definition int_of_digits :: "pystr \<Rightarrow> nat" where
  "int_of_digits ds = foldl (\<lambda>a c. 10 * a + digit_value c) 0 ds"

definition py_float :: "pystr \<Rightarrow> double option" where
  "py_float s =
     (let i = takeWhile is_digit s; r = dropWhile is_digit s
      in if i = [] then None
         else (case r of
                 [] \<Rightarrow> Some (round_double (int_of_digits i) 1)
               | p # f \<Rightarrow>
                   if p = 46 \<and> f \<noteq> [] \<and> list_all is_digit f
                   then Some (round_double (int_of_digits (i @ f)) (10 ^ length f))
                   else None))"

text \<open>\<^verbatim>\<open>x / 1000\<close>: the \<^verbatim>\<open>int\<close> 1000 is a double as it is, and the quotient is rounded.\<close>

fun div_1000 :: "double \<Rightarrow> double" where
  "div_1000 (Finite m e) =
     (if 0 \<le> e then round_double (m * 2 ^ nat e) 1000
      else round_double m (1000 * 2 ^ nat (- e)))"
| "div_1000 Infinity = Infinity"

section \<open>The controller\<close>

text \<open>
  \<^verbatim>\<open>MpowerDevice\<close>: the fields of \<^verbatim>\<open>__init__\<close>. \<^verbatim>\<open>_states\<close> is a dict of dicts of
  \<^verbatim>\<open>str\<close>; \<^verbatim>\<open>_ssh\<close> is \<^verbatim>\<open>None\<close> or a pxssh object, which the controller never looks
  into. \<open>sent\<close> is not a field of the class: it records, in order, the lines the
  controller has passed to \<^verbatim>\<open>sendline\<close>.
\<close>

datatype pxssh = Pxssh

type_synonym state_table = "pystr \<rightharpoonup> (pystr \<rightharpoonup> pystr)"

record mpower =
  dev_name :: pystr
  dev_host :: pystr
  dev_username :: pystr
  dev_password :: pystr
  dev_timeout :: int
  states :: state_table
  ssh :: "pxssh option"
  sent :: "pystr list"

definition MpowerDevice :: "pystr \<Rightarrow> pystr \<Rightarrow> pystr \<Rightarrow> pystr \<Rightarrow> int \<Rightarrow> mpower" where
  "MpowerDevice name host username password timeout =
     \<lparr>dev_name = name, dev_host = host, dev_username = username,
      dev_password = password, dev_timeout = timeout,
      states = Map.empty, ssh = None, sent = []\<rparr>"

text \<open>
  What the remote end does during one call of the controller: the answer of
  \<^verbatim>\<open>isalive()\<close>, how \<^verbatim>\<open>login\<close> ends (normally, or with one of the two exceptions that
  \<^verbatim>\<open>_connect\<close> handles), and the bytes found in \<^verbatim>\<open>before\<close> once \<^verbatim>\<open>prompt()\<close> has returned.
  \<^verbatim>\<open>sendline\<close> and \<^verbatim>\<open>prompt\<close> themselves are taken to return normally.
\<close>

datatype login_result = LoginOk | RaisesEOF | RaisesExceptionPxssh

record transport =
  isalive :: bool
  login :: login_result
  before :: bytes

definition connect :: "transport \<Rightarrow> mpower \<Rightarrow> mpower" where
  "connect env d =
     (if ssh d = None \<or> \<not> isalive env then
        (case login env of
           LoginOk \<Rightarrow> d\<lparr>ssh := Some Pxssh\<rparr>
         | RaisesEOF \<Rightarrow> d\<lparr>ssh := None\<rparr>
         | RaisesExceptionPxssh \<Rightarrow> d\<lparr>ssh := None\<rparr>)
      else d)"

text \<open>\<^verbatim>\<open>str(n)\<close> for a natural number, as \<^verbatim>\<open>'{}'.format(n)\<close> prints it.\<close>

fun str_nat :: "nat \<Rightarrow> pystr" where
  "str_nat n = (if n < 10 then [48 + n] else str_nat (n div 10) @ [48 + n mod 10])"

definition CMD_RELAY :: "nat \<Rightarrow> pystr \<Rightarrow> pystr" where
  "CMD_RELAY state device_number =
     lit ''echo '' @ str_nat state @ lit '' > /proc/power/relay'' @ device_number"

definition CMD_POWER_STATUS :: pystr where
  "CMD_POWER_STATUS =
     lit ''cd /proc/power;grep '' @ [39, 39]
     @ lit '' pf* relay* v_rms* active_pwr* i_rms* energy_sum*''"

definition switch_state :: "transport \<Rightarrow> nat \<Rightarrow> pystr \<Rightarrow> mpower \<Rightarrow> bool \<times> mpower" where
  "switch_state env state device_number d =
     (let d1 = connect env d
      in if ssh d1 \<noteq> None
         then (True, d1\<lparr>sent := sent d1 @ [CMD_RELAY state device_number]\<rparr>)
         else (False, d1))"

text \<open>\<^verbatim>\<open>self._states[device_number]['relay'] = value\<close>: the outer subscript raises
  \<^verbatim>\<open>KeyError\<close> when the outlet is not in the table.\<close>

definition set_relay :: "pystr \<Rightarrow> pystr \<Rightarrow> mpower \<Rightarrow> py_error + mpower" where
  "set_relay device_number v d =
     (case states d device_number of
        None \<Rightarrow> Inl KeyError
      | Some m \<Rightarrow> Inr (d\<lparr>states := (states d)(device_number \<mapsto> m(lit ''relay'' \<mapsto> v))\<rparr>))"

text \<open>A call returns its value or raises, and leaves the controller as it is at that
  moment: the result is the outcome paired with the controller.\<close>

definition turn_on :: "transport \<Rightarrow> pystr \<Rightarrow> mpower \<Rightarrow> (py_error + bool) \<times> mpower" where
  "turn_on env device_number d =
     (case switch_state env 1 device_number d of
        (switched, d1) \<Rightarrow>
          if switched then
            (case set_relay device_number (lit ''1'') d1 of
               Inl e \<Rightarrow> (Inl e, d1)
             | Inr d2 \<Rightarrow> (Inr switched, d2))
          else (Inr switched, d1))"

definition turn_off :: "transport \<Rightarrow> pystr \<Rightarrow> mpower \<Rightarrow> (py_error + bool) \<times> mpower" where
  "turn_off env device_number d =
     (case switch_state env 0 device_number d of
        (switched, d1) \<Rightarrow>
          if switched then
            (case set_relay device_number (lit ''0'') d1 of
               Inl e \<Rightarrow> (Inl e, d1)
             | Inr d2 \<Rightarrow> (Inr switched, d2))
          else (Inr switched, d1))"

text \<open>The body of the loop of \<^verbatim>\<open>update\<close> once a line has matched: the outlet's dict is
  created when the key is new, then the metric is stored.\<close>

definition store :: "pystr list \<Rightarrow> state_table \<Rightarrow> state_table" where
  "store groups st =
     (let outlet = (case st (groups ! 1) of None \<Rightarrow> Map.empty | Some m \<Rightarrow> m)
      in st(groups ! 1 \<mapsto> outlet(groups ! 0 \<mapsto> groups ! 2)))"

fun update_loop :: "bytes list \<Rightarrow> state_table \<Rightarrow> (py_error + unit) \<times> state_table" where
  "update_loop [] st = (Inr (), st)"
| "update_loop (power_line # power_data) st =
     (case decode power_line of
        Inl e \<Rightarrow> (Inl e, st)
      | Inr text \<Rightarrow>
          (case re_match (remove_cr text) of
             Some groups \<Rightarrow>
               if length groups = 3 then update_loop power_data (store groups st)
               else update_loop power_data st
           | None \<Rightarrow> update_loop power_data st))"

text \<open>\<^verbatim>\<open>MpowerDevice.update\<close> without its \<^verbatim>\<open>Throttle\<close> decorator.\<close>

definition update :: "transport \<Rightarrow> mpower \<Rightarrow> (py_error + unit) \<times> mpower" where
  "update env d =
     (let d1 = connect env d
      in if ssh d1 \<noteq> None then
           (let d2 = d1\<lparr>sent := sent d1 @ [CMD_POWER_STATUS]\<rparr>;
                power_data = slice_1_m1 (split (CHR 0x0A) (before env))
            in case update_loop power_data (states d2) of
                 (r, st) \<Rightarrow> (r, d2\<lparr>states := st\<rparr>))
         else (Inr (), d1))"

section \<open>The outlet\<close>

text \<open>
  \<^verbatim>\<open>MpowerOutlet\<close> keeps a reference to its controller and reads the controller's table
  at every access; here the controller is an argument of each accessor. A label is
  a \<^verbatim>\<open>str\<close> or \<^verbatim>\<open>None\<close>; \<^verbatim>\<open>if self._label\<close> holds for a \<^verbatim>\<open>str\<close> that is not empty.
\<close>

record outlet =
  o_device_number :: pystr
  o_label :: "pystr option"
  o_name :: pystr

definition truthy :: "pystr option \<Rightarrow> bool" where
  "truthy label = (case label of None \<Rightarrow> False | Some l \<Rightarrow> l \<noteq> [])"

definition MpowerOutlet :: "mpower \<Rightarrow> pystr \<Rightarrow> pystr option \<Rightarrow> outlet" where
  "MpowerOutlet controller device_number label =
     \<lparr>o_device_number = device_number, o_label = label,
      o_name = (if truthy label
                then dev_name controller @ lit ''_'' @ (case label of Some l \<Rightarrow> l | None \<Rightarrow> [])
                else dev_name controller @ lit ''_'' @ device_number)\<rparr>"

text \<open>\<^verbatim>\<open>states[device_number][metric]\<close>: either subscript raises \<^verbatim>\<open>KeyError\<close> on a
  missing key.\<close>

definition subscript2 :: "state_table \<Rightarrow> pystr \<Rightarrow> pystr \<Rightarrow> py_error + pystr" where
  "subscript2 st device_number metric =
     (case st device_number of
        None \<Rightarrow> Inl KeyError
      | Some m \<Rightarrow> (case m metric of None \<Rightarrow> Inl KeyError | Some v \<Rightarrow> Inr v))"

definition is_on :: "mpower \<Rightarrow> outlet \<Rightarrow> py_error + bool" where
  "is_on controller out =
     (case subscript2 (states controller) (o_device_number out) (lit ''relay'') of
        Inl e \<Rightarrow> Inl e
      | Inr v \<Rightarrow> Inr (v = lit ''1''))"

definition outlet_turn_on :: "transport \<Rightarrow> mpower \<Rightarrow> outlet \<Rightarrow> (py_error + unit) \<times> mpower" where
  "outlet_turn_on env controller out =
     (case turn_on env (o_device_number out) controller of
        (r, c) \<Rightarrow> (map_sum id (\<lambda>_. ()) r, c))"

definition outlet_turn_off :: "transport \<Rightarrow> mpower \<Rightarrow> outlet \<Rightarrow> (py_error + unit) \<times> mpower" where
  "outlet_turn_off env controller out =
     (case turn_off env (o_device_number out) controller of
        (r, c) \<Rightarrow> (map_sum id (\<lambda>_. ()) r, c))"

text \<open>
  \<^verbatim>\<open>float(states[device_number][metric])\<close>: the subscripts may raise \<^verbatim>\<open>KeyError\<close>; the
  result is \<open>None\<close> where \<open>py_float\<close> is. \<open>and_then\<close> goes on with the value of a
  reading, and stops where it raised or is not modelled.
\<close>

definition reading :: "mpower \<Rightarrow> outlet \<Rightarrow> pystr \<Rightarrow> (py_error + double) option" where
  "reading controller out metric =
     (case subscript2 (states controller) (o_device_number out) metric of
        Inl e \<Rightarrow> Some (Inl e)
      | Inr v \<Rightarrow> map_option Inr (py_float v))"

definition and_then ::
  "(py_error + 'a) option \<Rightarrow> ('a \<Rightarrow> (py_error + 'b) option) \<Rightarrow> (py_error + 'b) option" where
  "and_then r f = (case r of None \<Rightarrow> None | Some (Inl e) \<Rightarrow> Some (Inl e) | Some (Inr x) \<Rightarrow> f x)"

definition current_power_mwh :: "mpower \<Rightarrow> outlet \<Rightarrow> (py_error + double) option" where
  "current_power_mwh controller out =
     and_then (reading controller out (lit ''active_pwr'')) (\<lambda>x. Some (Inr (div_1000 x)))"

text \<open>The dict of \<^verbatim>\<open>device_state_attributes\<close>, its values computed in the order of the
  source.\<close>

definition device_state_attributes ::
  "mpower \<Rightarrow> outlet \<Rightarrow> (py_error + (string \<times> double) list) option" where
  "device_state_attributes controller out =
     and_then (reading controller out (lit ''pf'')) (\<lambda>pf.
     and_then (reading controller out (lit ''energy_sum'')) (\<lambda>energy_sum.
     and_then (reading controller out (lit ''v_rms'')) (\<lambda>v_rms.
     and_then (reading controller out (lit ''active_pwr'')) (\<lambda>active_pwr.
     and_then (reading controller out (lit ''i_rms'')) (\<lambda>i_rms.
       Some (Inr [(''power_factor'', pf), (''energy_sum'', energy_sum), (''voltage'', v_rms),
                  (''power'', active_pwr), (''current'', i_rms)]))))))"

section \<open>Vocabulary of the properties\<close>

text \<open>The groups of a raw line of the dump, when the line is text and, with its
  carriage returns removed, matches the pattern.\<close>

definition line_match :: "bytes \<Rightarrow> pystr list option" where
  "line_match l = (case decode l of Inl e \<Rightarrow> None | Inr text \<Rightarrow> re_match (remove_cr text))"

text \<open>The entry of a metric of an outlet in the table, if there is one.\<close>

definition entry :: "state_table \<Rightarrow> pystr \<Rightarrow> pystr \<Rightarrow> pystr option" where
  "entry st key metric = (case st key of None \<Rightarrow> None | Some m \<Rightarrow> m metric)"

text \<open>The lines of a response that \<^verbatim>\<open>update\<close> looks at.\<close>

definition power_lines :: "bytes \<Rightarrow> bytes list" where
  "power_lines response = slice_1_m1 (split (CHR 0x0A) response)"

text \<open>One turn of the loop of \<^verbatim>\<open>update\<close> on a line that is text.\<close>

definition step :: "bytes \<Rightarrow> state_table \<Rightarrow> state_table" where
  "step l st = (case line_match l of None \<Rightarrow> st | Some g \<Rightarrow> store g st)"

text \<open>A decimal numeral: digits, or digits, a full stop and digits.\<close>

definition numeral :: "pystr \<Rightarrow> bool" where
  "numeral v \<longleftrightarrow>
     (\<exists>i f. i \<noteq> [] \<and> list_all is_digit i \<and> list_all is_digit f
        \<and> (v = i \<or> (f \<noteq> [] \<and> v = i @ 46 # f)))"

text \<open>Every entry of the table is a decimal numeral.\<close>

definition numeric :: "state_table \<Rightarrow> bool" where
  "numeric st = (\<forall>key metric v. entry st key metric = Some v \<longrightarrow> py_float v \<noteq> None)"

text \<open>\<^verbatim>\<open>sep.join(lines)\<close>.\<close>

fun join :: "char \<Rightarrow> bytes list \<Rightarrow> bytes" where
  "join sep [] = []"
| "join sep [l] = l"
| "join sep (l # l' # ls) = l @ sep # join sep (l' # ls)"

section \<open>The fixtures of the test suite\<close>

text \<open>
  The three mock clients of \<^verbatim>\<open>test_ubiquiti_mpower.py\<close> and the controller its tests
  build. \<^verbatim>\<open>MockSsh\<close> logs in, is never alive and answers every prompt with the same
  dump; the other two raise in \<^verbatim>\<open>login\<close>, so that their other answers are never asked
  for.
\<close>

definition crlf :: bytes where
  "crlf = [CHR 0x0D, CHR 0x0A]"

definition msg :: bytes where
  "msg =
     ''cd /proc/power;grep '' @ [CHR 0x27] @ [CHR 0x27] @
     '' pf* relay* v_rms* active_pwr* i_rms* energy_su'' @ [CHR 0x0D] @ crlf @ ''m*'' @
     crlf @ ''pf1:0.0'' @ crlf @ ''pf2:0.91073511'' @ crlf @ ''pf3:0.0'' @ crlf @
     ''pf4:0.0'' @ crlf @ ''pf5:0.0'' @ crlf @ ''pf6:0.0'' @ crlf @ ''relay1:1'' @
     crlf @ ''relay2:1'' @ crlf @ ''relay3:1'' @ crlf @ ''relay4:0'' @ crlf @
     ''relay5:1'' @ crlf @ ''relay6:1'' @ crlf @ ''v_rms1:233.138035297'' @ crlf @
     ''v_rms2:233.23304367'' @ crlf @ ''v_rms3:232.374885559'' @ crlf @
     ''v_rms4:233.049869537'' @ crlf @ ''v_rms5:232.89024353'' @ crlf @
     ''v_rms6:233.143782615'' @ crlf @ ''active_pwr1:0.0'' @ crlf @
     ''active_pwr2:27.129834473'' @ crlf @ ''active_pwr3:0.0'' @ crlf @
     ''active_pwr4:0.0'' @ crlf @ ''active_pwr5:0.0'' @ crlf @ ''active_pwr6:0.0'' @
     crlf @ ''i_rms1:0.0'' @ crlf @ ''i_rms2:0.127721786'' @ crlf @ ''i_rms3:0.0'' @
     crlf @ ''i_rms4:0.0'' @ crlf @ ''i_rms5:0.0'' @ crlf @ ''i_rms6:0.0'' @ crlf @
     ''energy_sum1:54.375'' @ crlf @ ''energy_sum2:124.6875'' @ crlf @
     ''energy_sum3:0.0'' @ crlf @ ''energy_sum4:23.4375'' @ crlf @
     ''energy_sum5:0.0'' @ crlf @ ''energy_sum6:0.0'' @ crlf"

text \<open>The lines of \<open>msg\<close>, and the table the tests expect \<^verbatim>\<open>update\<close> to build from it.\<close>

definition msg_lines :: "bytes list" where
  "msg_lines =
     [''cd /proc/power;grep '' @ [CHR 0x27] @ [CHR 0x27] @ '' pf* relay* v_rms* active_pwr* i_rms* energy_su'' @ [CHR 0x0D] @ [CHR 0x0D],
      ''m*'' @ [CHR 0x0D], ''pf1:0.0'' @ [CHR 0x0D], ''pf2:0.91073511'' @ [CHR 0x0D],
      ''pf3:0.0'' @ [CHR 0x0D], ''pf4:0.0'' @ [CHR 0x0D], ''pf5:0.0'' @ [CHR 0x0D],
      ''pf6:0.0'' @ [CHR 0x0D], ''relay1:1'' @ [CHR 0x0D], ''relay2:1'' @ [CHR 0x0D],
      ''relay3:1'' @ [CHR 0x0D], ''relay4:0'' @ [CHR 0x0D], ''relay5:1'' @ [CHR 0x0D],
      ''relay6:1'' @ [CHR 0x0D], ''v_rms1:233.138035297'' @ [CHR 0x0D],
      ''v_rms2:233.23304367'' @ [CHR 0x0D], ''v_rms3:232.374885559'' @ [CHR 0x0D],
      ''v_rms4:233.049869537'' @ [CHR 0x0D], ''v_rms5:232.89024353'' @ [CHR 0x0D],
      ''v_rms6:233.143782615'' @ [CHR 0x0D], ''active_pwr1:0.0'' @ [CHR 0x0D],
      ''active_pwr2:27.129834473'' @ [CHR 0x0D], ''active_pwr3:0.0'' @ [CHR 0x0D],
      ''active_pwr4:0.0'' @ [CHR 0x0D], ''active_pwr5:0.0'' @ [CHR 0x0D],
      ''active_pwr6:0.0'' @ [CHR 0x0D], ''i_rms1:0.0'' @ [CHR 0x0D],
      ''i_rms2:0.127721786'' @ [CHR 0x0D], ''i_rms3:0.0'' @ [CHR 0x0D],
      ''i_rms4:0.0'' @ [CHR 0x0D], ''i_rms5:0.0'' @ [CHR 0x0D],
      ''i_rms6:0.0'' @ [CHR 0x0D], ''energy_sum1:54.375'' @ [CHR 0x0D],
      ''energy_sum2:124.6875'' @ [CHR 0x0D], ''energy_sum3:0.0'' @ [CHR 0x0D],
      ''energy_sum4:23.4375'' @ [CHR 0x0D], ''energy_sum5:0.0'' @ [CHR 0x0D],
      ''energy_sum6:0.0'' @ [CHR 0x0D], []]"

definition msg_table :: state_table where
  "msg_table =
     [lit ''1'' \<mapsto>
        [lit ''pf'' \<mapsto> lit ''0.0'', lit ''relay'' \<mapsto> lit ''1'',
         lit ''v_rms'' \<mapsto> lit ''233.138035297'',
         lit ''active_pwr'' \<mapsto> lit ''0.0'',
         lit ''i_rms'' \<mapsto> lit ''0.0'',
         lit ''energy_sum'' \<mapsto> lit ''54.375''],
      lit ''2'' \<mapsto>
        [lit ''pf'' \<mapsto> lit ''0.91073511'',
         lit ''relay'' \<mapsto> lit ''1'',
         lit ''v_rms'' \<mapsto> lit ''233.23304367'',
         lit ''active_pwr'' \<mapsto> lit ''27.129834473'',
         lit ''i_rms'' \<mapsto> lit ''0.127721786'',
         lit ''energy_sum'' \<mapsto> lit ''124.6875''],
      lit ''3'' \<mapsto>
        [lit ''pf'' \<mapsto> lit ''0.0'', lit ''relay'' \<mapsto> lit ''1'',
         lit ''v_rms'' \<mapsto> lit ''232.374885559'',
         lit ''active_pwr'' \<mapsto> lit ''0.0'',
         lit ''i_rms'' \<mapsto> lit ''0.0'',
         lit ''energy_sum'' \<mapsto> lit ''0.0''],
      lit ''4'' \<mapsto>
        [lit ''pf'' \<mapsto> lit ''0.0'', lit ''relay'' \<mapsto> lit ''0'',
         lit ''v_rms'' \<mapsto> lit ''233.049869537'',
         lit ''active_pwr'' \<mapsto> lit ''0.0'',
         lit ''i_rms'' \<mapsto> lit ''0.0'',
         lit ''energy_sum'' \<mapsto> lit ''23.4375''],
      lit ''5'' \<mapsto>
        [lit ''pf'' \<mapsto> lit ''0.0'', lit ''relay'' \<mapsto> lit ''1'',
         lit ''v_rms'' \<mapsto> lit ''232.89024353'',
         lit ''active_pwr'' \<mapsto> lit ''0.0'',
         lit ''i_rms'' \<mapsto> lit ''0.0'',
         lit ''energy_sum'' \<mapsto> lit ''0.0''],
      lit ''6'' \<mapsto>
        [lit ''pf'' \<mapsto> lit ''0.0'', lit ''relay'' \<mapsto> lit ''1'',
         lit ''v_rms'' \<mapsto> lit ''233.143782615'',
         lit ''active_pwr'' \<mapsto> lit ''0.0'',
         lit ''i_rms'' \<mapsto> lit ''0.0'',
         lit ''energy_sum'' \<mapsto> lit ''0.0'']]"

definition MockSsh :: transport where
  "MockSsh = \<lparr>isalive = False, login = LoginOk, before = msg\<rparr>"

definition MockSshErrorEof :: transport where
  "MockSshErrorEof = \<lparr>isalive = False, login = RaisesEOF, before = []\<rparr>"

definition MockSshError :: transport where
  "MockSshError = \<lparr>isalive = False, login = RaisesExceptionPxssh, before = []\<rparr>"

definition device :: mpower where
  "device = MpowerDevice (lit ''name'') (lit ''host'') (lit ''username'') (lit ''password'') 60"

text \<open>More fixtures: the controller of the tests with outlet 4 known and off; a client
  whose dump is an echoed command, one metric line and one line of noise; one whose
  response is three metric lines and nothing else; one that reports a relay as 2.\<close>

definition device4 :: mpower where
  "device4 = device\<lparr>states := [lit ''4'' \<mapsto> [lit ''relay'' \<mapsto> lit ''0'']]\<rparr>"

definition echo_relay2 :: transport where
  "echo_relay2 =
     \<lparr>isalive = False, login = LoginOk,
      before = ''status'' @ crlf @ ''relay2:1'' @ crlf @ ''garbage'' @ crlf\<rparr>"

definition three_relays :: transport where
  "three_relays =
     \<lparr>isalive = False, login = LoginOk,
      before = ''relay1:1'' @ [CHR 0x0A] @ ''relay2:0'' @ [CHR 0x0A] @ ''relay3:1''\<rparr>"

definition relay_two :: transport where
  "relay_two =
     \<lparr>isalive = False, login = LoginOk,
      before = ''status'' @ crlf @ ''relay1:2'' @ crlf\<rparr>"

text \<open>A client whose dump has the three lines \<^verbatim>\<open>relay2:1\<close>, \<^verbatim>\<open>active_pwr2:27.129834473\<close>
  and \<^verbatim>\<open>pf2:0.91073511\<close> between the echoed command and the end, and no other metric.\<close>

definition three_metrics :: transport where
  "three_metrics =
     \<lparr>isalive = False, login = LoginOk,
      before = ''status'' @ crlf @ ''relay2:1'' @ crlf @ ''active_pwr2:27.129834473'' @ crlf
               @ ''pf2:0.91073511'' @ crlf\<rparr>"

section \<open>The rate limit\<close>

text \<open>
  Modelled from the spec: the \<^verbatim>\<open>Throttle\<close> decorator of \<^verbatim>\<open>homeassistant.util\<close> that wraps
  \<^verbatim>\<open>update\<close> is not among the sources. The specification gives the controller a
  timestamp of its last refresh and a minimum interval, checked at the top of the
  refresh: a call that arrives sooner than the interval after the last refresh does
  nothing and returns, any other call runs \<^verbatim>\<open>update\<close>. Times are integers, in
  microseconds, as in \<^verbatim>\<open>datetime\<close>; \<^verbatim>\<open>timedelta(seconds=5)\<close> is five million of them.
\<close>

definition MIN_TIME_BETWEEN_UPDATES :: int where
  "MIN_TIME_BETWEEN_UPDATES = 5 * 1000000"

record throttled =
  dev :: mpower
  last_refresh :: "int option"

definition refresh ::
  "int \<Rightarrow> int \<Rightarrow> transport \<Rightarrow> throttled \<Rightarrow> (py_error + unit) \<times> throttled" where
  "refresh min_time now env t =
     (if (case last_refresh t of None \<Rightarrow> False | Some t0 \<Rightarrow> now - t0 < min_time)
      then (Inr (), t)
      else (case update env (dev t) of
              (r, c) \<Rightarrow> (r, \<lparr>dev = c, last_refresh = Some now\<rparr>)))"

definition fresh :: throttled where
  "fresh = \<lparr>dev = device, last_refresh = None\<rparr>"

section \<open>The invariant of the relay entries\<close>

definition relay_ok :: "state_table \<Rightarrow> bool" where
  "relay_ok st =
     (\<forall>key. entry st key (lit ''relay'') \<in> {None, Some (lit ''0''), Some (lit ''1'')})"

section \<open>The connection\<close>

lemma connect_keeps [simp]:
  "states (connect env d) = states d" "sent (connect env d) = sent d"
  "dev_name (connect env d) = dev_name d"
  by (simp_all add: connect_def split: login_result.splits)

lemma connect_available:
  "ssh (connect env d) \<noteq> None \<longleftrightarrow> (ssh d \<noteq> None \<and> isalive env) \<or> login env = LoginOk"
  by (auto simp: connect_def split: login_result.splits)

lemma connect_fails:
  "ssh d = None \<or> \<not> isalive env \<Longrightarrow> login env \<noteq> LoginOk \<Longrightarrow> connect env d = d\<lparr>ssh := None\<rparr>"
  by (auto simp: connect_def split: login_result.splits)

lemma connect_unavailable:
  "ssh (connect env d) = None \<longleftrightarrow> (ssh d = None \<or> \<not> isalive env) \<and> login env \<noteq> LoginOk"
  using connect_available [of env d] by auto

section \<open>The pattern and the loop\<close>

lemma re_match_groups: "re_match s = Some g \<Longrightarrow> \<exists>name key v. g = [name, key, v]"
  by (auto simp: re_match_def Let_def split: if_splits list.splits)

lemma line_match_groups: "line_match l = Some g \<Longrightarrow> \<exists>name key v. g = [name, key, v]"
  by (auto simp: line_match_def dest: re_match_groups split: sum.splits)

lemma line_match_decodable: "line_match l = Some g \<Longrightarrow> decode l \<noteq> Inl UnicodeDecodeError"
  by (auto simp: line_match_def)

lemma update_loop_Cons:
  "update_loop (l # ls) st =
     (if decode l = Inl UnicodeDecodeError then (Inl UnicodeDecodeError, st)
      else update_loop ls (step l st))"
proof (cases "decode l")
  case (Inl e)
  then show ?thesis by (cases e) (simp_all add: decode_def split: option.splits)
next
  case (Inr t)
  show ?thesis
  proof (cases "re_match (remove_cr t)")
    case None
    with Inr show ?thesis by (simp add: step_def line_match_def)
  next
    case (Some g)
    then have "length g = 3" using re_match_groups by fastforce
    with Some Inr show ?thesis by (simp add: step_def line_match_def)
  qed
qed

lemma store_apply:
  "store [name, key, v] st =
     st(key \<mapsto> (case st key of None \<Rightarrow> Map.empty | Some m \<Rightarrow> m)(name \<mapsto> v))"
  by (simp add: store_def)

lemma entry_store:
  "entry (store [name, key, v] st) k n = (if k = key \<and> n = name then Some v else entry st k n)"
  by (auto simp: store_apply entry_def split: option.splits)

lemma update_loop_append:
  "\<forall>l\<in>set xs. decode l \<noteq> Inl UnicodeDecodeError \<Longrightarrow>
   update_loop (xs @ ys) st = update_loop ys (snd (update_loop xs st))"
proof (induction xs arbitrary: st)
  case Nil
  show ?case by simp
next
  case (Cons x xs)
  then show ?case by (simp add: update_loop_Cons del: update_loop.simps)
qed

lemma update_loop_returns:
  "\<forall>l\<in>set xs. decode l \<noteq> Inl UnicodeDecodeError \<Longrightarrow> fst (update_loop xs st) = Inr ()"
proof (induction xs arbitrary: st)
  case Nil
  show ?case by simp
next
  case (Cons x xs)
  then show ?case by (simp add: update_loop_Cons del: update_loop.simps)
qed

lemma step_other_entry:
  assumes "\<forall>v. line_match l \<noteq> Some [n, k, v]"
  shows "entry (step l st) k n = entry st k n"
proof (cases "line_match l")
  case None
  then show ?thesis by (simp add: step_def)
next
  case (Some g)
  from Some obtain name key v where g: "g = [name, key, v]"
    using line_match_groups by blast
  with Some assms have "\<not> (key = k \<and> name = n)" by auto
  with Some g show ?thesis by (auto simp: step_def entry_store)
qed

lemma step_other_key:
  assumes "\<forall>n v. line_match l \<noteq> Some [n, k, v]"
  shows "step l st k = st k"
proof (cases "line_match l")
  case None
  then show ?thesis by (simp add: step_def)
next
  case (Some g)
  from Some obtain name key v where g: "g = [name, key, v]"
    using line_match_groups by blast
  with Some assms have "key \<noteq> k" by auto
  with Some g show ?thesis by (simp add: step_def store_apply)
qed

lemma update_loop_other_entry:
  "\<forall>l\<in>set ls. \<forall>v. line_match l \<noteq> Some [n, k, v] \<Longrightarrow>
   entry (snd (update_loop ls st)) k n = entry st k n"
proof (induction ls arbitrary: st)
  case Nil
  show ?case by simp
next
  case (Cons x xs)
  then show ?case
    by (simp add: update_loop_Cons step_other_entry del: update_loop.simps)
qed

lemma update_loop_other_key:
  "\<forall>l\<in>set ls. \<forall>n v. line_match l \<noteq> Some [n, k, v] \<Longrightarrow>
   snd (update_loop ls st) k = st k"
proof (induction ls arbitrary: st)
  case Nil
  show ?case by simp
next
  case (Cons x xs)
  then show ?case
    by (simp add: update_loop_Cons step_other_key del: update_loop.simps)
qed

lemma update_loop_last_match:
  assumes "\<forall>x\<in>set pre. decode x \<noteq> Inl UnicodeDecodeError"
    and "line_match l = Some [n, k, v]"
    and "\<forall>x\<in>set post. \<forall>v'. line_match x \<noteq> Some [n, k, v']"
  shows "entry (snd (update_loop (pre @ l # post) st)) k n = Some v"
proof -
  let ?s = "snd (update_loop pre st)"
  have "update_loop (pre @ l # post) st = update_loop post (step l ?s)"
    using assms(1,2) line_match_decodable [OF assms(2)]
    by (simp add: update_loop_append update_loop_Cons del: update_loop.simps)
  moreover have "entry (step l ?s) k n = Some v"
    using assms(2) by (simp add: step_def entry_store)
  ultimately show ?thesis
    using update_loop_other_entry [OF assms(3)] by simp
qed

text \<open>The loop stops at the first line that is not text; what it has stored by then
  is what the lines before that one store.\<close>

lemma update_loop_prefix:
  "update_loop ls st =
     (if \<forall>l\<in>set ls. decode l \<noteq> Inl UnicodeDecodeError then Inr () else Inl UnicodeDecodeError,
      snd (update_loop (takeWhile (\<lambda>l. decode l \<noteq> Inl UnicodeDecodeError) ls) st))"
proof (induction ls arbitrary: st)
  case Nil
  show ?case by simp
next
  case (Cons x xs)
  show ?case
  proof (cases "decode x = Inl UnicodeDecodeError")
    case True
    then show ?thesis by (simp add: update_loop_Cons)
  next
    case False
    then show ?thesis
      using Cons.IH [of "step x st"]
      by (simp add: update_loop_Cons del: update_loop.simps)
  qed
qed

lemma table_eqI:
  assumes "\<And>k. (st k = None) = (st' k = None)"
    and "\<And>k n. entry st k n = entry st' k n"
  shows "st = (st' :: state_table)"
proof
  fix k
  show "st k = st' k"
  proof (cases "st k")
    case None
    with assms(1) [of k] show ?thesis by simp
  next
    case (Some m)
    with assms(1) [of k] obtain m' where m': "st' k = Some m'" by auto
    have "m n = m' n" for n
      using assms(2) [of k n] Some m' by (simp add: entry_def)
    then have "m = m'" by (rule ext)
    with Some m' show ?thesis by simp
  qed
qed

lemma entry_Some_key: "entry st k n = Some v \<Longrightarrow> st k \<noteq> None"
  by (auto simp: entry_def split: option.splits)

lemma update_loop_entry_absorbs:
  assumes dec: "\<forall>l\<in>set ls. decode l \<noteq> Inl UnicodeDecodeError"
  shows "entry (snd (update_loop ls (snd (update_loop ls st)))) k n
           = entry (snd (update_loop ls st)) k n"
proof (cases "\<exists>l\<in>set ls. \<exists>v. line_match l = Some [n, k, v]")
  case True
  then obtain pre l post where ls: "ls = pre @ l # post"
    and l: "\<exists>v. line_match l = Some [n, k, v]"
    and post: "\<forall>x\<in>set post. \<not> (\<exists>v. line_match x = Some [n, k, v])"
    using split_list_last_prop [of ls "\<lambda>l. \<exists>v. line_match l = Some [n, k, v]"] by blast
  from l obtain v where v: "line_match l = Some [n, k, v]" by blast
  have pre: "\<forall>x\<in>set pre. decode x \<noteq> Inl UnicodeDecodeError" using dec ls by simp
  have post': "\<forall>x\<in>set post. \<forall>v'. line_match x \<noteq> Some [n, k, v']" using post by blast
  show ?thesis
    unfolding ls
    by (simp only: update_loop_last_match [OF pre v post'])
next
  case False
  then have "\<forall>l\<in>set ls. \<forall>v. line_match l \<noteq> Some [n, k, v]" by blast
  then show ?thesis by (simp only: update_loop_other_entry)
qed

lemma update_loop_key_absorbs:
  assumes dec: "\<forall>l\<in>set ls. decode l \<noteq> Inl UnicodeDecodeError"
  shows "(snd (update_loop ls (snd (update_loop ls st))) k = None)
           = (snd (update_loop ls st) k = None)"
proof (cases "\<exists>l\<in>set ls. \<exists>n v. line_match l = Some [n, k, v]")
  case True
  then obtain l n v where l: "l \<in> set ls" "line_match l = Some [n, k, v]" by blast
  then have "\<exists>l\<in>set ls. \<exists>v. line_match l = Some [n, k, v]" by blast
  then obtain pre l' post where ls: "ls = pre @ l' # post"
    and l': "\<exists>v. line_match l' = Some [n, k, v]"
    and post: "\<forall>x\<in>set post. \<not> (\<exists>v. line_match x = Some [n, k, v])"
    using split_list_last_prop [of ls "\<lambda>l. \<exists>v. line_match l = Some [n, k, v]"] by blast
  from l' obtain w where w: "line_match l' = Some [n, k, w]" by blast
  have pre: "\<forall>x\<in>set pre. decode x \<noteq> Inl UnicodeDecodeError" using dec ls by simp
  have post': "\<forall>x\<in>set post. \<forall>v'. line_match x \<noteq> Some [n, k, v']" using post by blast
  have present: "snd (update_loop ls s) k \<noteq> None" for s
    using update_loop_last_match [OF pre w post', of s] entry_Some_key ls by blast
  show ?thesis
    using present [of st] present [of "snd (update_loop ls st)"] by auto
next
  case False
  then have "\<forall>l\<in>set ls. \<forall>n v. line_match l \<noteq> Some [n, k, v]" by blast
  then show ?thesis by (simp only: update_loop_other_key)
qed

lemma update_loop_absorbs:
  assumes "\<forall>l\<in>set ls. decode l \<noteq> Inl UnicodeDecodeError"
  shows "snd (update_loop ls (snd (update_loop ls st))) = snd (update_loop ls st)"
  by (rule table_eqI) (simp_all only: update_loop_key_absorbs [OF assms]
      update_loop_entry_absorbs [OF assms])

lemma update_loop_idem:
  "update_loop ls (snd (update_loop ls st)) = update_loop ls st"
proof -
  let ?p = "takeWhile (\<lambda>l. decode l \<noteq> Inl UnicodeDecodeError) ls"
  have dec: "\<forall>l\<in>set ?p. decode l \<noteq> Inl UnicodeDecodeError"
    by (auto dest: set_takeWhileD)
  have "snd (update_loop ls st) = snd (update_loop ?p st)"
    by (subst update_loop_prefix) simp
  moreover have "update_loop ls (snd (update_loop ?p st))
      = (fst (update_loop ls st), snd (update_loop ?p (snd (update_loop ?p st))))"
    by (subst update_loop_prefix, subst (3) update_loop_prefix) simp
  ultimately show ?thesis
    using update_loop_absorbs [OF dec, of st] by (simp add: prod_eq_iff)
qed

section \<open>update\<close>

lemma update_available:
  "ssh (connect env d) \<noteq> None \<Longrightarrow>
   update env d =
     (fst (update_loop (power_lines (before env)) (states d)),
      (connect env d)\<lparr>sent := sent d @ [CMD_POWER_STATUS],
                       states := snd (update_loop (power_lines (before env)) (states d))\<rparr>)"
  by (simp add: update_def power_lines_def Let_def split: prod.splits)

lemma update_unavailable:
  "ssh (connect env d) = None \<Longrightarrow> update env d = (Inr (), connect env d)"
  by (simp add: update_def)

section \<open>Evaluation\<close>

lemma is_digit_low: "c < 1632 \<Longrightarrow> is_digit c = (48 \<le> c \<and> c < 58)"
  by (auto simp: is_digit_def nd_starts_def)

lemma digit_value_low: "48 \<le> c \<Longrightarrow> c < 58 \<Longrightarrow> digit_value c = c - 48"
  by (simp add: digit_value_def nd_starts_def)

lemmas run_defs =
  update_def turn_on_def turn_off_def switch_state_def set_relay_def connect_def
  MpowerDevice_def device_def MockSsh_def MockSshError_def MockSshErrorEof_def
  power_lines_def slice_1_m1_def

lemmas text_defs =
  line_match_def decode_def cont_def remove_cr_def re_match_def is_name_char_def
  is_digit_low at_end_def lit_def store_def entry_def Let_def

lemmas float_defs =
  py_float_def round_double_def round_half_even_def floor_log2_def int_of_digits_def
  is_digit_low digit_value_low lit_def Let_def

lemma echo_relay2_lines:
  "power_lines (before echo_relay2) = [] @ (''relay2:1'' @ [CHR 0x0D]) # [''garbage'' @ [CHR 0x0D]]"
  by (simp add: echo_relay2_def power_lines_def slice_1_m1_def crlf_def)

lemma match_relay2: "line_match (''relay2:1'' @ [CHR 0x0D]) = Some [lit ''relay'', lit ''2'', lit ''1'']"
  by (simp add: text_defs)

lemma match_garbage: "line_match (''garbage'' @ [CHR 0x0D]) = None"
  by (simp add: text_defs)

lemma switch_state_available:
  "ssh (connect env d) \<noteq> None \<Longrightarrow>
   switch_state env n key d = (True, (connect env d)\<lparr>sent := sent d @ [CMD_RELAY n key]\<rparr>)"
  by (simp add: switch_state_def Let_def)

lemma switch_state_unavailable:
  "ssh (connect env d) = None \<Longrightarrow> switch_state env n key d = (False, connect env d)"
  by (simp add: switch_state_def Let_def)

section \<open>Refresh\<close>

text \<open>
  C1, as the code has it. \<^verbatim>\<open>update\<close> with a session at hand looks at the lines of
  the response other than the first and the last, each with its carriage returns
  removed, and when all of them are UTF-8 text it returns normally and
  \<^item> for a metric and an outlet, the value of the last line that matches them is the
    entry of the table;
  \<^item> an entry that no line matches is what it was;
  \<^item> an outlet that no line names is what it was, absent if it was absent.
  So a line that does not match changes nothing.
\<close>

theorem update_stores_matching_lines:
  "ssh (connect env d) \<noteq> None
   \<and> (\<forall>l\<in>set (power_lines (before env)). decode l \<noteq> Inl UnicodeDecodeError) \<longrightarrow>
     fst (update env d) = Inr ()
   \<and> (\<forall>pre l post name key v.
         power_lines (before env) = pre @ l # post \<and> line_match l = Some [name, key, v]
         \<and> (\<forall>x\<in>set post. \<forall>v'. line_match x \<noteq> Some [name, key, v'])
         \<longrightarrow> entry (states (snd (update env d))) key name = Some v)
   \<and> (\<forall>name key.
         (\<forall>x\<in>set (power_lines (before env)). \<forall>v. line_match x \<noteq> Some [name, key, v])
         \<longrightarrow> entry (states (snd (update env d))) key name = entry (states d) key name)
   \<and> (\<forall>key.
         (\<forall>x\<in>set (power_lines (before env)). \<forall>name v. line_match x \<noteq> Some [name, key, v])
         \<longrightarrow> states (snd (update env d)) key = states d key)"
proof (intro impI, elim conjE)
  assume av: "ssh (connect env d) \<noteq> None"
    and dec: "\<forall>l\<in>set (power_lines (before env)). decode l \<noteq> Inl UnicodeDecodeError"
  let ?ls = "power_lines (before env)"
  have st: "states (snd (update env d)) = snd (update_loop ?ls (states d))"
    and r: "fst (update env d) = fst (update_loop ?ls (states d))"
    using av by (simp_all add: update_available)
  have 1: "fst (update env d) = Inr ()"
    using dec by (simp add: r update_loop_returns)
  have 2: "entry (states (snd (update env d))) key name = Some v"
    if "?ls = pre @ l # post" "line_match l = Some [name, key, v]"
      "\<forall>x\<in>set post. \<forall>v'. line_match x \<noteq> Some [name, key, v']"
    for pre l post name key v
  proof -
    from dec that(1) have "\<forall>x\<in>set pre. decode x \<noteq> Inl UnicodeDecodeError" by simp
    from update_loop_last_match [OF this that(2,3)] show ?thesis
      by (simp add: st that(1))
  qed
  have 3: "entry (states (snd (update env d))) key name = entry (states d) key name"
    if "\<forall>x\<in>set ?ls. \<forall>v. line_match x \<noteq> Some [name, key, v]" for name key
    using that by (simp add: st update_loop_other_entry)
  have 4: "states (snd (update env d)) key = states d key"
    if "\<forall>x\<in>set ?ls. \<forall>name v. line_match x \<noteq> Some [name, key, v]" for key
    using that by (simp add: st update_loop_other_key)
  from 1 2 3 4 show "fst (update env d) = Inr ()
   \<and> (\<forall>pre l post name key v.
         power_lines (before env) = pre @ l # post \<and> line_match l = Some [name, key, v]
         \<and> (\<forall>x\<in>set post. \<forall>v'. line_match x \<noteq> Some [name, key, v'])
         \<longrightarrow> entry (states (snd (update env d))) key name = Some v)
   \<and> (\<forall>name key.
         (\<forall>x\<in>set (power_lines (before env)). \<forall>v. line_match x \<noteq> Some [name, key, v])
         \<longrightarrow> entry (states (snd (update env d))) key name = entry (states d) key name)
   \<and> (\<forall>key.
         (\<forall>x\<in>set (power_lines (before env)). \<forall>name v. line_match x \<noteq> Some [name, key, v])
         \<longrightarrow> states (snd (update env d)) key = states d key)"
    by blast
qed

theorem update_stores_matching_lines_witness:
  "ssh (connect echo_relay2 device) \<noteq> None
   \<and> power_lines (before echo_relay2) = [''relay2:1'' @ [CHR 0x0D], ''garbage'' @ [CHR 0x0D]]
   \<and> decode (''relay2:1'' @ [CHR 0x0D]) = Inr (lit ''relay2:1'' @ [13])
   \<and> decode (''garbage'' @ [CHR 0x0D]) = Inr (lit ''garbage'' @ [13])
   \<and> line_match (''relay2:1'' @ [CHR 0x0D]) = Some [lit ''relay'', lit ''2'', lit ''1'']
   \<and> line_match (''garbage'' @ [CHR 0x0D]) = None
   \<and> fst (update echo_relay2 device) = Inr ()
   \<and> entry (states (snd (update echo_relay2 device))) (lit ''2'') (lit ''relay'') = Some (lit ''1'')
   \<and> states (snd (update echo_relay2 device)) (lit ''1'') = None"
proof -
  have av: "ssh (connect echo_relay2 device) \<noteq> None"
    by (simp add: connect_def echo_relay2_def)
  have d1: "decode (''relay2:1'' @ [CHR 0x0D]) = Inr (lit ''relay2:1'' @ [13])"
    and d2: "decode (''garbage'' @ [CHR 0x0D]) = Inr (lit ''garbage'' @ [13])"
    by (simp_all add: decode_def lit_def)
  have dec: "\<forall>l\<in>set (power_lines (before echo_relay2)). decode l \<noteq> Inl UnicodeDecodeError"
    by (simp add: echo_relay2_lines decode_def)
  have post: "\<forall>x\<in>set [''garbage'' @ [CHR 0x0D]]. \<forall>v'. line_match x \<noteq> Some [lit ''relay'', lit ''2'', v']"
    using match_garbage by simp
  have none: "\<forall>x\<in>set (power_lines (before echo_relay2)). \<forall>name v.
      line_match x \<noteq> Some [name, lit ''1'', v]"
    using match_garbage match_relay2 by (simp add: echo_relay2_lines lit_def)
  have empty: "states device (lit ''1'') = None"
    by (simp add: device_def MpowerDevice_def)
  from update_stores_matching_lines [of echo_relay2 device] av dec
    echo_relay2_lines match_relay2 post none empty
  have "fst (update echo_relay2 device) = Inr ()
    \<and> entry (states (snd (update echo_relay2 device))) (lit ''2'') (lit ''relay'') = Some (lit ''1'')
    \<and> states (snd (update echo_relay2 device)) (lit ''1'') = None"
    by metis
  with av d1 d2 match_relay2 match_garbage echo_relay2_lines show ?thesis by simp
qed

text \<open>C1 as stated fails on the first line of a response: the line matches, the call
  returns, and the table is as before.\<close>

theorem update_stores_matching_lines_counterexample:
  "ssh (connect \<lparr>isalive = False, login = LoginOk, before = ''relay1:1''\<rparr> device) \<noteq> None
   \<and> split (CHR 0x0A) ''relay1:1'' = [''relay1:1'']
   \<and> line_match ''relay1:1'' = Some [lit ''relay'', lit ''1'', lit ''1'']
   \<and> fst (update \<lparr>isalive = False, login = LoginOk, before = ''relay1:1''\<rparr> device) = Inr ()
   \<and> entry (states (snd (update \<lparr>isalive = False, login = LoginOk, before = ''relay1:1''\<rparr>
         device))) (lit ''1'') (lit ''relay'') = None"
  by (simp add: run_defs text_defs)

text \<open>A line that is not UTF-8 ends \<^verbatim>\<open>update\<close> with \<^verbatim>\<open>UnicodeDecodeError\<close>; what the lines
  before it stored stays in the table, the lines after it are not read.\<close>

lemma update_raises:
  "update \<lparr>isalive = False, login = LoginOk,
           before = ''status'' @ crlf @ ''relay1:1'' @ crlf @ [CHR 0xFF] @ crlf @ ''relay2:1'' @ crlf\<rparr>
     device
   = (Inl UnicodeDecodeError,
      device\<lparr>ssh := Some Pxssh, sent := [CMD_POWER_STATUS],
             states := [lit ''1'' \<mapsto> [lit ''relay'' \<mapsto> lit ''1'']]\<rparr>)"
  by (simp add: run_defs text_defs crlf_def)

section \<open>Relay writes\<close>

text \<open>
  C2, as the code has it. With a session at hand, \<^verbatim>\<open>turn_on\<close> and \<^verbatim>\<open>turn_off\<close> on an
  outlet that is in the table return \<^verbatim>\<open>True\<close> and set its \<^verbatim>\<open>relay\<close> entry to \<^verbatim>\<open>'1'\<close> and
  \<^verbatim>\<open>'0'\<close>, whatever it was, and change nothing else of the table. With no session they
  return \<^verbatim>\<open>False\<close> and the table is as before.
\<close>

theorem relay_write:
  "(ssh (connect env d) \<noteq> None \<and> states d key = Some m \<longrightarrow>
      fst (turn_on env key d) = Inr True
      \<and> states (snd (turn_on env key d)) = (states d)(key \<mapsto> m(lit ''relay'' \<mapsto> lit ''1''))
      \<and> fst (turn_off env key d) = Inr True
      \<and> states (snd (turn_off env key d)) = (states d)(key \<mapsto> m(lit ''relay'' \<mapsto> lit ''0'')))
   \<and> (ssh (connect env d) = None \<longrightarrow>
      fst (turn_on env key d) = Inr False \<and> states (snd (turn_on env key d)) = states d
      \<and> fst (turn_off env key d) = Inr False \<and> states (snd (turn_off env key d)) = states d)"
  by (simp add: turn_on_def turn_off_def switch_state_available switch_state_unavailable
      set_relay_def)

theorem relay_write_witness:
  "ssh (connect MockSsh device4) \<noteq> None
   \<and> states device4 (lit ''4'') = Some [lit ''relay'' \<mapsto> lit ''0'']
   \<and> fst (turn_on MockSsh (lit ''4'') device4) = Inr True
   \<and> states (snd (turn_on MockSsh (lit ''4'') device4))
       = [lit ''4'' \<mapsto> [lit ''relay'' \<mapsto> lit ''1'']]
   \<and> ssh (connect MockSshError device4) = None
   \<and> fst (turn_on MockSshError (lit ''4'') device4) = Inr False"
  using relay_write [of MockSsh device4 "lit ''4''" "[lit ''relay'' \<mapsto> lit ''0'']"]
    relay_write [of MockSshError device4 "lit ''4''" "[lit ''relay'' \<mapsto> lit ''0'']"]
  by (simp add: device4_def connect_def MockSsh_def MockSshError_def device_def MpowerDevice_def)

text \<open>C2 as stated fails on an outlet that is not in the table: the session is there
  and the call raises.\<close>

theorem relay_write_counterexample:
  "ssh (connect MockSsh device) \<noteq> None
   \<and> fst (turn_on MockSsh (lit ''1'') device) = Inl KeyError"
  by (simp add: run_defs)

text \<open>
  C9. With a session at hand, \<^verbatim>\<open>turn_on\<close> and \<^verbatim>\<open>turn_off\<close> on an outlet that is not in
  the table raise \<^verbatim>\<open>KeyError\<close>; by then the relay command has been sent, and the table
  is as before: the write does not create the outlet's entry.
\<close>

theorem relay_write_missing_key:
  "ssh (connect env d) \<noteq> None \<and> states d key = None \<longrightarrow>
     fst (turn_on env key d) = Inl KeyError
     \<and> sent (snd (turn_on env key d)) = sent d @ [CMD_RELAY 1 key]
     \<and> states (snd (turn_on env key d)) = states d
     \<and> fst (turn_off env key d) = Inl KeyError
     \<and> sent (snd (turn_off env key d)) = sent d @ [CMD_RELAY 0 key]
     \<and> states (snd (turn_off env key d)) = states d"
  by (simp add: turn_on_def turn_off_def switch_state_available set_relay_def)

theorem relay_write_missing_key_witness:
  "ssh (connect MockSsh device) \<noteq> None \<and> states device (lit ''3'') = None
   \<and> fst (turn_off MockSsh (lit ''3'') device) = Inl KeyError
   \<and> sent (snd (turn_off MockSsh (lit ''3'') device))
       = [lit ''echo 0 > /proc/power/relay3'']"
  using relay_write_missing_key [of MockSsh device "lit ''3''"]
  by (simp add: connect_def MockSsh_def device_def MpowerDevice_def CMD_RELAY_def lit_def)

section \<open>A connection that cannot be made\<close>

text \<open>
  C4. When \<^verbatim>\<open>login\<close> is attempted and raises \<^verbatim>\<open>EOF\<close> or \<^verbatim>\<open>ExceptionPxssh\<close>, \<^verbatim>\<open>update\<close>
  returns normally, the session is \<^verbatim>\<open>None\<close> and nothing else of the controller has
  changed; a \<^verbatim>\<open>turn_on\<close> or \<^verbatim>\<open>turn_off\<close> that follows, its login failing too, returns
  \<^verbatim>\<open>False\<close> and changes nothing.
\<close>

theorem failed_connection:
  "(ssh d = None \<or> \<not> isalive env) \<and> login env \<in> {RaisesEOF, RaisesExceptionPxssh}
   \<and> login env' \<in> {RaisesEOF, RaisesExceptionPxssh} \<longrightarrow>
     update env d = (Inr (), d\<lparr>ssh := None\<rparr>)
     \<and> states (snd (update env d)) = states d
     \<and> turn_on env' key (snd (update env d)) = (Inr False, d\<lparr>ssh := None\<rparr>)
     \<and> turn_off env' key (snd (update env d)) = (Inr False, d\<lparr>ssh := None\<rparr>)"
  by (auto simp: update_unavailable connect_fails turn_on_def turn_off_def
      switch_state_unavailable)

theorem failed_connection_witness:
  "ssh device = None
   \<and> login MockSshErrorEof \<in> {RaisesEOF, RaisesExceptionPxssh}
   \<and> login MockSshError \<in> {RaisesEOF, RaisesExceptionPxssh}
   \<and> update MockSshErrorEof device = (Inr (), device)
   \<and> states (snd (update MockSshErrorEof device)) = Map.empty
   \<and> turn_off MockSshError (lit ''1'') (snd (update MockSshErrorEof device)) = (Inr False, device)
   \<and> turn_on MockSshError (lit ''1'') (snd (update MockSshErrorEof device)) = (Inr False, device)"
proof -
  have hyp: "ssh device = None
      \<and> login MockSshErrorEof \<in> {RaisesEOF, RaisesExceptionPxssh}
      \<and> login MockSshError \<in> {RaisesEOF, RaisesExceptionPxssh}"
    by (simp add: MockSshErrorEof_def MockSshError_def device_def MpowerDevice_def)
  have same: "device\<lparr>ssh := None\<rparr> = device"
    by (simp add: device_def MpowerDevice_def)
  have empty: "states device = Map.empty"
    by (simp add: device_def MpowerDevice_def)
  from failed_connection [of device MockSshErrorEof MockSshError "lit ''1''"] hyp
  show ?thesis unfolding same empty by blast
qed

section \<open>The name of an outlet\<close>

text \<open>
  C7, as the code has it. The name of an outlet is the name of the controller, an
  underscore, and then the label when there is one and it is not empty, the outlet key
  otherwise.
\<close>

theorem outlet_name:
  "o_name (MpowerOutlet controller key label) =
     (case label of
        None \<Rightarrow> dev_name controller @ lit ''_'' @ key
      | Some l \<Rightarrow> if l = [] then dev_name controller @ lit ''_'' @ key
                  else dev_name controller @ lit ''_'' @ l)"
  by (simp add: MpowerOutlet_def truthy_def split: option.splits)

theorem outlet_name_witness:
  "o_name (MpowerOutlet device (lit ''2'') (Some (lit ''tv''))) = lit ''name_tv''
   \<and> o_name (MpowerOutlet device (lit ''2'') None) = lit ''name_2''"
  using outlet_name [of device "lit ''2''" "Some (lit ''tv'')"]
    outlet_name [of device "lit ''2''" None]
  by (simp add: device_def MpowerDevice_def lit_def)

text \<open>C7 as stated fails on the outlet of the tests: its name is not its label.\<close>

theorem outlet_name_counterexample:
  "o_name (MpowerOutlet device (lit ''2'') (Some (lit ''tv''))) \<noteq> lit ''tv''"
  by (simp add: MpowerOutlet_def truthy_def device_def MpowerDevice_def lit_def)

section \<open>Parsing twice\<close>

text \<open>
  C8. Running the loop of \<^verbatim>\<open>update\<close> again on the same lines, from the table the
  first run left, ends the same way and leaves the same table; so does \<^verbatim>\<open>update\<close> itself,
  called again with the same answers of the remote end. This holds for every list of
  lines, also when one of them is not text and the loop stops there.
\<close>

theorem parsing_idempotent:
  "update_loop ls (snd (update_loop ls st)) = update_loop ls st
   \<and> states (snd (update env (snd (update env d)))) = states (snd (update env d))"
proof (intro conjI)
  show "update_loop ls (snd (update_loop ls st)) = update_loop ls st"
    by (rule update_loop_idem)
next
  show "states (snd (update env (snd (update env d)))) = states (snd (update env d))"
  proof (cases "ssh (connect env d) = None")
    case True
    then have 1: "snd (update env d) = connect env d"
      by (simp add: update_unavailable)
    from True have "login env \<noteq> LoginOk" by (simp add: connect_unavailable)
    with True have "ssh (connect env (connect env d)) = None"
      by (simp add: connect_unavailable)
    then show ?thesis by (simp add: 1 update_unavailable)
  next
    case False
    let ?d' = "snd (update env d)"
    from False have ssh': "ssh ?d' = ssh (connect env d)"
      by (simp add: update_available)
    from False have "(ssh d \<noteq> None \<and> isalive env) \<or> login env = LoginOk"
      by (simp only: connect_available)
    moreover have "ssh ?d' \<noteq> None" using False ssh' by simp
    ultimately have "(ssh ?d' \<noteq> None \<and> isalive env) \<or> login env = LoginOk"
      by blast
    then have "ssh (connect env ?d') \<noteq> None"
      by (simp only: connect_available)
    then have "states (snd (update env ?d'))
        = snd (update_loop (power_lines (before env)) (states ?d'))"
      by (simp add: update_available)
    moreover have "states ?d' = snd (update_loop (power_lines (before env)) (states d))"
      using False by (simp add: update_available)
    ultimately show ?thesis by (simp add: update_loop_idem)
  qed
qed

lemma two_relay_lines:
  "update_loop [''relay1:1'', ''pf1:0.5'', ''relay1:0''] Map.empty
     = (Inr (), [lit ''1'' \<mapsto> [lit ''pf'' \<mapsto> lit ''0.5'', lit ''relay'' \<mapsto> lit ''0'']])"
  by (simp add: text_defs)

theorem parsing_idempotent_witness:
  "update_loop [''relay1:1'', ''pf1:0.5'', ''relay1:0'']
      [lit ''1'' \<mapsto> [lit ''pf'' \<mapsto> lit ''0.5'', lit ''relay'' \<mapsto> lit ''0'']]
     = (Inr (), [lit ''1'' \<mapsto> [lit ''pf'' \<mapsto> lit ''0.5'', lit ''relay'' \<mapsto> lit ''0'']])"
  using parsing_idempotent [of "[''relay1:1'', ''pf1:0.5'', ''relay1:0'']" Map.empty, THEN conjunct1]
  by (simp only: two_relay_lines snd_conv)

section \<open>The first and the last line\<close>

lemma slice_inner: "slice_1_m1 (a # mid @ [b]) = mid"
  by (simp add: slice_1_m1_def)

lemma slice_short: "length xs \<le> 2 \<Longrightarrow> slice_1_m1 xs = []"
  by (simp add: slice_1_m1_def)

lemma update_before:
  "power_lines (before env') = power_lines (before env) \<Longrightarrow> isalive env' = isalive env
   \<Longrightarrow> login env' = login env \<Longrightarrow> update env' d = update env d"
proof -
  assume pl: "power_lines (before env') = power_lines (before env)"
    and "isalive env' = isalive env" "login env' = login env"
  then have c: "connect env' d = connect env d" by (simp add: connect_def)
  show ?thesis
  proof (cases "ssh (connect env d) = None")
    case True
    then show ?thesis using c by (simp add: update_unavailable)
  next
    case False
    then show ?thesis using c pl by (simp add: update_available)
  qed
qed

lemma update_other_entry:
  assumes "\<forall>x\<in>set (power_lines (before env)). \<forall>v. line_match x \<noteq> Some [name, key, v]"
  shows "entry (states (snd (update env d))) key name = entry (states d) key name"
proof (cases "ssh (connect env d) = None")
  case True
  then show ?thesis by (simp add: update_unavailable)
next
  case False
  then show ?thesis using assms by (simp add: update_available update_loop_other_entry)
qed

text \<open>
  C10. \<^verbatim>\<open>update\<close> leaves the first and the last line of the split response out: a
  response of at most two lines changes no entry; of a longer one only the lines in
  between are looked at, so an entry that none of them matches is what it was, whatever
  the first and the last line are, and two responses that differ in their first and
  last lines only give the same result.
\<close>

theorem first_and_last_line_dropped:
  "(length (split (CHR 0x0A) (before env)) \<le> 2 \<longrightarrow> states (snd (update env d)) = states d)
   \<and> (split (CHR 0x0A) (before env) = first # mid @ [lst] \<longrightarrow>
        power_lines (before env) = mid
        \<and> ((\<forall>x\<in>set mid. \<forall>v. line_match x \<noteq> Some [name, key, v]) \<longrightarrow>
             entry (states (snd (update env d))) key name = entry (states d) key name)
        \<and> (split (CHR 0x0A) (before env') = first' # mid @ [lst']
             \<and> isalive env' = isalive env \<and> login env' = login env \<longrightarrow>
             update env' d = update env d))"
proof (intro conjI impI)
  assume "length (split (CHR 0x0A) (before env)) \<le> 2"
  then have "power_lines (before env) = []"
    by (simp add: power_lines_def slice_short)
  then show "states (snd (update env d)) = states d"
    by (cases "ssh (connect env d) = None") (simp_all add: update_available update_unavailable)
next
  assume s: "split (CHR 0x0A) (before env) = first # mid @ [lst]"
  then show pl: "power_lines (before env) = mid"
    by (simp add: power_lines_def slice_inner)
  {
    assume "\<forall>x\<in>set mid. \<forall>v. line_match x \<noteq> Some [name, key, v]"
    with pl show "entry (states (snd (update env d))) key name = entry (states d) key name"
      by (simp add: update_other_entry)
  }
  {
    assume "split (CHR 0x0A) (before env') = first' # mid @ [lst']
             \<and> isalive env' = isalive env \<and> login env' = login env"
    then show "update env' d = update env d"
      using pl by (simp add: update_before power_lines_def slice_inner)
  }
qed

theorem first_and_last_line_dropped_witness:
  "split (CHR 0x0A) (before three_relays) = ''relay1:1'' # [''relay2:0''] @ [''relay3:1'']
   \<and> line_match ''relay1:1'' = Some [lit ''relay'', lit ''1'', lit ''1'']
   \<and> line_match ''relay3:1'' = Some [lit ''relay'', lit ''3'', lit ''1'']
   \<and> line_match ''relay2:0'' = Some [lit ''relay'', lit ''2'', lit ''0'']
   \<and> power_lines (before three_relays) = [''relay2:0'']
   \<and> entry (states (snd (update three_relays device))) (lit ''1'') (lit ''relay'') = None
   \<and> entry (states (snd (update three_relays device))) (lit ''3'') (lit ''relay'') = None"
proof -
  have s: "split (CHR 0x0A) (before three_relays) = ''relay1:1'' # [''relay2:0''] @ [''relay3:1'']"
    by (simp add: three_relays_def)
  have m1: "line_match ''relay1:1'' = Some [lit ''relay'', lit ''1'', lit ''1'']"
    and m3: "line_match ''relay3:1'' = Some [lit ''relay'', lit ''3'', lit ''1'']"
    and m2: "line_match ''relay2:0'' = Some [lit ''relay'', lit ''2'', lit ''0'']"
    by (simp_all add: text_defs)
  have n1: "\<forall>x\<in>set [''relay2:0'']. \<forall>v. line_match x \<noteq> Some [lit ''relay'', lit ''1'', v]"
    and n3: "\<forall>x\<in>set [''relay2:0'']. \<forall>v. line_match x \<noteq> Some [lit ''relay'', lit ''3'', v]"
    using m2 by (simp_all add: lit_def)
  have e: "entry (states device) k n = None" for k n
    by (simp add: device_def MpowerDevice_def entry_def)
  from first_and_last_line_dropped [where env = three_relays and d = device
      and first = "''relay1:1''" and mid = "[''relay2:0'']" and lst = "''relay3:1''"
      and name = "lit ''relay''" and key = "lit ''1''" and env' = three_relays
      and first' = "''relay1:1''" and lst' = "''relay3:1''"] s n1
  have 1: "power_lines (before three_relays) = [''relay2:0'']"
    and 2: "entry (states (snd (update three_relays device))) (lit ''1'') (lit ''relay'') = None"
    by (simp_all add: e)
  from first_and_last_line_dropped [where env = three_relays and d = device
      and first = "''relay1:1''" and mid = "[''relay2:0'']" and lst = "''relay3:1''"
      and name = "lit ''relay''" and key = "lit ''3''" and env' = three_relays
      and first' = "''relay1:1''" and lst' = "''relay3:1''"] s n3
  have 3: "entry (states (snd (update three_relays device))) (lit ''3'') (lit ''relay'') = None"
    by (simp add: e)
  from s m1 m2 m3 1 2 3 show ?thesis by blast
qed

section \<open>Relay entries\<close>

lemma relay_ok_store:
  assumes "relay_ok st" and "name = lit ''relay'' \<longrightarrow> v = lit ''0'' \<or> v = lit ''1''"
  shows "relay_ok (store [name, key, v] st)"
  using assms by (auto simp: relay_ok_def entry_store)

lemma relay_ok_step:
  assumes "relay_ok st"
    and "\<forall>k v. line_match l = Some [lit ''relay'', k, v] \<longrightarrow> v = lit ''0'' \<or> v = lit ''1''"
  shows "relay_ok (step l st)"
proof (cases "line_match l")
  case None
  with assms(1) show ?thesis by (simp add: step_def)
next
  case (Some g)
  then obtain name key v where g: "g = [name, key, v]"
    using line_match_groups by blast
  with Some assms(2) have "name = lit ''relay'' \<longrightarrow> v = lit ''0'' \<or> v = lit ''1''"
    by auto
  with assms(1) Some g show ?thesis by (simp add: step_def relay_ok_store)
qed

lemma relay_ok_update_loop:
  "relay_ok st \<Longrightarrow>
   \<forall>l\<in>set ls. \<forall>k v. line_match l = Some [lit ''relay'', k, v] \<longrightarrow> v = lit ''0'' \<or> v = lit ''1''
   \<Longrightarrow> relay_ok (snd (update_loop ls st))"
proof (induction ls arbitrary: st)
  case Nil
  then show ?case by simp
next
  case (Cons x xs)
  then show ?case
    by (simp add: update_loop_Cons relay_ok_step del: update_loop.simps)
qed

lemma relay_ok_write:
  assumes "relay_ok st" and "st key = Some m" and "v = lit ''0'' \<or> v = lit ''1''"
  shows "relay_ok (st(key \<mapsto> m(lit ''relay'' \<mapsto> v)))"
  using assms by (auto simp: relay_ok_def entry_def)

lemma turn_on_states:
  "states (snd (turn_on env key d)) = states d
   \<or> (\<exists>m. states d key = Some m
        \<and> states (snd (turn_on env key d)) = (states d)(key \<mapsto> m(lit ''relay'' \<mapsto> lit ''1'')))"
  by (cases "ssh (connect env d) = None"; cases "states d key")
    (simp_all add: turn_on_def switch_state_available switch_state_unavailable set_relay_def)

lemma turn_off_states:
  "states (snd (turn_off env key d)) = states d
   \<or> (\<exists>m. states d key = Some m
        \<and> states (snd (turn_off env key d)) = (states d)(key \<mapsto> m(lit ''relay'' \<mapsto> lit ''0'')))"
  by (cases "ssh (connect env d) = None"; cases "states d key")
    (simp_all add: turn_off_def switch_state_available switch_state_unavailable set_relay_def)

text \<open>
  C5, as the code has it. When every \<^verbatim>\<open>relay\<close> entry of the table is \<^verbatim>\<open>'0'\<close> or \<^verbatim>\<open>'1'\<close>,
  it is so after \<^verbatim>\<open>turn_on\<close> and after \<^verbatim>\<open>turn_off\<close>, however they end; and it is so
  after \<^verbatim>\<open>update\<close> provided every \<^verbatim>\<open>relay\<close> line of the dump that \<^verbatim>\<open>update\<close> looks at
  carries \<^verbatim>\<open>0\<close> or \<^verbatim>\<open>1\<close>: \<^verbatim>\<open>update\<close> stores the digits the device sent.
\<close>

theorem relay_invariant:
  "relay_ok (states d) \<longrightarrow>
     relay_ok (states (snd (turn_on env key d)))
   \<and> relay_ok (states (snd (turn_off env key d)))
   \<and> ((\<forall>l\<in>set (power_lines (before env)). \<forall>k v.
          line_match l = Some [lit ''relay'', k, v] \<longrightarrow> v = lit ''0'' \<or> v = lit ''1'')
        \<longrightarrow> relay_ok (states (snd (update env d))))"
proof (intro impI conjI)
  assume ok: "relay_ok (states d)"
  show "relay_ok (states (snd (turn_on env key d)))"
    using turn_on_states [of env key d] ok relay_ok_write [of "states d" key _ "lit ''1''"]
    by auto
  show "relay_ok (states (snd (turn_off env key d)))"
    using turn_off_states [of env key d] ok relay_ok_write [of "states d" key _ "lit ''0''"]
    by auto
  assume "\<forall>l\<in>set (power_lines (before env)). \<forall>k v.
          line_match l = Some [lit ''relay'', k, v] \<longrightarrow> v = lit ''0'' \<or> v = lit ''1''"
  with ok show "relay_ok (states (snd (update env d)))"
    by (cases "ssh (connect env d) = None")
      (simp_all add: update_available update_unavailable relay_ok_update_loop)
qed

theorem relay_invariant_witness:
  "relay_ok (states device4)
   \<and> power_lines (before echo_relay2) = [''relay2:1'' @ [CHR 0x0D], ''garbage'' @ [CHR 0x0D]]
   \<and> line_match (''relay2:1'' @ [CHR 0x0D]) = Some [lit ''relay'', lit ''2'', lit ''1'']
   \<and> line_match (''garbage'' @ [CHR 0x0D]) = None
   \<and> relay_ok (states (snd (turn_on MockSsh (lit ''4'') device4)))
   \<and> relay_ok (states (snd (turn_off MockSsh (lit ''4'') device4)))
   \<and> relay_ok (states (snd (update echo_relay2 device4)))"
proof -
  have ok: "relay_ok (states device4)"
    by (simp add: relay_ok_def device4_def entry_def lit_def)
  have lines: "\<forall>l\<in>set (power_lines (before echo_relay2)). \<forall>k v.
      line_match l = Some [lit ''relay'', k, v] \<longrightarrow> v = lit ''0'' \<or> v = lit ''1''"
    using match_garbage match_relay2 by (simp add: echo_relay2_lines)
  from relay_invariant [of device4 MockSsh "lit ''4''"] ok
  have 1: "relay_ok (states (snd (turn_on MockSsh (lit ''4'') device4)))"
    and 2: "relay_ok (states (snd (turn_off MockSsh (lit ''4'') device4)))"
    by blast+
  from relay_invariant [of device4 echo_relay2 "lit ''4''"] ok lines
  have 3: "relay_ok (states (snd (update echo_relay2 device4)))"
    by blast
  from ok 1 2 3 match_garbage match_relay2 echo_relay2_lines show ?thesis by simp
qed

text \<open>C5 as stated fails on a dump that reports a relay as 2: the entry is \<^verbatim>\<open>'2'\<close>.\<close>

theorem relay_invariant_counterexample:
  "entry (states (snd (update relay_two device))) (lit ''1'') (lit ''relay'') = Some (lit ''2'')
   \<and> lit ''2'' \<noteq> lit ''0'' \<and> lit ''2'' \<noteq> lit ''1''"
  by (simp add: relay_two_def crlf_def run_defs text_defs)

section \<open>The rate limit on refresh\<close>

lemma update_sent:
  "sent (snd (update env d)) = sent d \<or> sent (snd (update env d)) = sent d @ [CMD_POWER_STATUS]"
  by (cases "ssh (connect env d) = None") (simp_all add: update_available update_unavailable)

lemma refresh_suppressed:
  "last_refresh t = Some t0 \<Longrightarrow> now - t0 < min_time \<Longrightarrow> refresh min_time now env t = (Inr (), t)"
  by (simp add: refresh_def)

lemma refresh_runs:
  "\<forall>t0. last_refresh t = Some t0 \<longrightarrow> min_time \<le> now - t0 \<Longrightarrow>
   refresh min_time now env t
     = (fst (update env (dev t)), \<lparr>dev = snd (update env (dev t)), last_refresh = Some now\<rparr>)"
  by (auto simp: refresh_def split: option.splits prod.splits)

lemma refresh_sent:
  "length (sent (dev (snd (refresh min_time now env t)))) \<le> length (sent (dev t)) + 1"
  using update_sent [of env "dev t"]
  by (auto simp: refresh_def split: option.splits prod.splits)

text \<open>
  C3, as the modelled rate limit has it. Of two refreshes less than the minimum
  interval apart, at most one sends the status command; and when the first of them
  is carried out (the controller was never refreshed, or at least the minimum interval
  before), the second does nothing: it returns normally and the controller, its table
  included, is as the first call left it.
\<close>

theorem refresh_rate_limited:
  "now2 - now1 < min_time \<longrightarrow>
     length (sent (dev (snd (refresh min_time now2 env2 (snd (refresh min_time now1 env1 t))))))
       \<le> length (sent (dev t)) + 1
   \<and> ((\<forall>t0. last_refresh t = Some t0 \<longrightarrow> min_time \<le> now1 - t0) \<longrightarrow>
        refresh min_time now2 env2 (snd (refresh min_time now1 env1 t))
          = (Inr (), snd (refresh min_time now1 env1 t)))"
proof (intro impI conjI)
  assume near: "now2 - now1 < min_time"
  let ?t1 = "snd (refresh min_time now1 env1 t)"
  have second: "refresh min_time now2 env2 ?t1 = (Inr (), ?t1)"
    if "\<forall>t0. last_refresh t = Some t0 \<longrightarrow> min_time \<le> now1 - t0"
  proof -
    from that have "last_refresh ?t1 = Some now1" by (simp add: refresh_runs)
    with near show ?thesis by (simp add: refresh_suppressed)
  qed
  show "length (sent (dev (snd (refresh min_time now2 env2 ?t1)))) \<le> length (sent (dev t)) + 1"
  proof (cases "\<forall>t0. last_refresh t = Some t0 \<longrightarrow> min_time \<le> now1 - t0")
    case True
    from second [OF True] refresh_sent [of min_time now1 env1 t] show ?thesis by simp
  next
    case False
    then obtain t0 where "last_refresh t = Some t0" "now1 - t0 < min_time" by auto
    then have "?t1 = t" by (simp add: refresh_suppressed)
    with refresh_sent [of min_time now2 env2 t] show ?thesis by simp
  qed
  show "refresh min_time now2 env2 ?t1 = (Inr (), ?t1)"
    if "\<forall>t0. last_refresh t = Some t0 \<longrightarrow> min_time \<le> now1 - t0"
    using second [OF that] .
qed

theorem refresh_rate_limited_witness:
  "(4000000 :: int) - 0 < MIN_TIME_BETWEEN_UPDATES
   \<and> last_refresh fresh = None
   \<and> sent (dev fresh) = []
   \<and> length (sent (dev (snd (refresh MIN_TIME_BETWEEN_UPDATES 4000000 MockSsh
        (snd (refresh MIN_TIME_BETWEEN_UPDATES 0 MockSsh fresh))))))
         \<le> length (sent (dev fresh)) + 1
   \<and> refresh MIN_TIME_BETWEEN_UPDATES 4000000 MockSsh
        (snd (refresh MIN_TIME_BETWEEN_UPDATES 0 MockSsh fresh))
       = (Inr (), snd (refresh MIN_TIME_BETWEEN_UPDATES 0 MockSsh fresh))"
proof -
  have near: "(4000000 :: int) - 0 < MIN_TIME_BETWEEN_UPDATES"
    by (simp add: MIN_TIME_BETWEEN_UPDATES_def)
  have never: "last_refresh fresh = None" and unsent: "sent (dev fresh) = []"
    by (simp_all add: fresh_def device_def MpowerDevice_def)
  have first: "\<forall>t0. last_refresh fresh = Some t0 \<longrightarrow> MIN_TIME_BETWEEN_UPDATES \<le> 0 - t0"
    by (simp add: never)
  from refresh_rate_limited [of 4000000 0 MIN_TIME_BETWEEN_UPDATES MockSsh MockSsh fresh]
    near first
  have both: "length (sent (dev (snd (refresh MIN_TIME_BETWEEN_UPDATES 4000000 MockSsh
        (snd (refresh MIN_TIME_BETWEEN_UPDATES 0 MockSsh fresh)))))) \<le> length (sent (dev fresh)) + 1
    \<and> refresh MIN_TIME_BETWEEN_UPDATES 4000000 MockSsh
        (snd (refresh MIN_TIME_BETWEEN_UPDATES 0 MockSsh fresh))
       = (Inr (), snd (refresh MIN_TIME_BETWEEN_UPDATES 0 MockSsh fresh))"
    by blast
  from near never unsent both show ?thesis by blast
qed

text \<open>C3 as stated fails when the first of the two calls is itself held back: refreshed
  at time 0, a controller does nothing at 4 s and sends the status command at 6 s.\<close>

lemma sent_update_MockSsh: "sent (snd (update MockSsh d)) = sent d @ [CMD_POWER_STATUS]"
  by (simp add: update_available connect_def MockSsh_def)

theorem refresh_rate_limited_counterexample:
  "(6000000 :: int) - 4000000 < MIN_TIME_BETWEEN_UPDATES
   \<and> sent (dev (snd (refresh MIN_TIME_BETWEEN_UPDATES 4000000 MockSsh
        \<lparr>dev = device, last_refresh = Some 0\<rparr>))) = []
   \<and> sent (dev (snd (refresh MIN_TIME_BETWEEN_UPDATES 6000000 MockSsh
        (snd (refresh MIN_TIME_BETWEEN_UPDATES 4000000 MockSsh
           \<lparr>dev = device, last_refresh = Some 0\<rparr>))))) = [CMD_POWER_STATUS]"
  by (simp add: refresh_def MIN_TIME_BETWEEN_UPDATES_def sent_update_MockSsh
      case_prod_beta device_def MpowerDevice_def)

section \<open>The dump of the tests\<close>

lemma split_no_sep: "sep \<notin> set l \<Longrightarrow> split sep l = [l]"
  by (induction l) auto

lemma split_line: "sep \<notin> set l \<Longrightarrow> split sep (l @ sep # r) = l # split sep r"
  by (induction l) auto

lemma split_join:
  "ls \<noteq> [] \<Longrightarrow> \<forall>l\<in>set ls. sep \<notin> set l \<Longrightarrow> split sep (join sep ls) = ls"
  by (induction sep ls rule: join.induct) (simp_all add: split_no_sep split_line)

lemma msg_join: "msg = join (CHR 0x0A) msg_lines"
  by (simp add: msg_def crlf_def msg_lines_def)

lemma msg_split: "split (CHR 0x0A) msg = msg_lines"
  unfolding msg_join by (rule split_join) (simp_all add: msg_lines_def)

lemma msg_power_lines: "power_lines msg = butlast (tl msg_lines)"
  by (simp add: power_lines_def msg_split slice_1_m1_def msg_lines_def)

lemma msg_update_loop: "update_loop (butlast (tl msg_lines)) Map.empty = (Inr (), msg_table)"
  by (simp add: msg_lines_def msg_table_def text_defs)

lemma update_MockSsh:
  "update MockSsh device
     = (Inr (), device\<lparr>ssh := Some Pxssh, sent := [CMD_POWER_STATUS], states := msg_table\<rparr>)"
proof -
  have "ssh (connect MockSsh device) \<noteq> None"
    by (simp add: connect_def MockSsh_def)
  from update_available [OF this] show ?thesis
    by (simp add: msg_power_lines msg_update_loop MockSsh_def connect_def device_def
        MpowerDevice_def)
qed

text \<open>\<^verbatim>\<open>test_controller\<close>: after \<^verbatim>\<open>update\<close>, \<^verbatim>\<open>states['1']['energy_sum']\<close> is \<^verbatim>\<open>'54.375'\<close>.\<close>

lemma test_controller:
  "entry (states (snd (update MockSsh device))) (lit ''1'') (lit ''energy_sum'') = Some (lit ''54.375'')"
  by (simp add: update_MockSsh) (simp add: msg_table_def entry_def lit_def)

text \<open>\<^verbatim>\<open>test_power_outlet_turn_on\<close> and \<^verbatim>\<open>test_power_outlet_turn_off\<close>: outlet 4 is off and
  on after \<^verbatim>\<open>turn_on\<close>, outlet 1 is on and off after \<^verbatim>\<open>turn_off\<close>, with no refresh in
  between.\<close>

lemma msg_outlets:
  "states (snd (update MockSsh device)) (lit ''4'') \<noteq> None"
  "states (snd (update MockSsh device)) (lit ''1'') \<noteq> None"
  "entry (states (snd (update MockSsh device))) (lit ''4'') (lit ''relay'') = Some (lit ''0'')"
  "entry (states (snd (update MockSsh device))) (lit ''1'') (lit ''relay'') = Some (lit ''1'')"
  by (simp_all add: update_MockSsh) (simp_all add: msg_table_def entry_def lit_def)

lemma is_on_entry:
  "is_on c out = (case entry (states c) (o_device_number out) (lit ''relay'') of
                    None \<Rightarrow> Inl KeyError | Some v \<Rightarrow> Inr (v = lit ''1''))"
  by (simp add: is_on_def entry_def subscript2_def split: option.splits)

lemma test_power_outlet_turn_on:
  "is_on (snd (update MockSsh device)) (MpowerOutlet (snd (update MockSsh device)) (lit ''4'') (Some (lit ''tv''))) = Inr False"
  "is_on (snd (turn_on MockSsh (lit ''4'') (snd (update MockSsh device))))
     (MpowerOutlet (snd (update MockSsh device)) (lit ''4'') (Some (lit ''tv''))) = Inr True"
proof -
  let ?c = "snd (update MockSsh device)"
  have key: "o_device_number (MpowerOutlet ?c (lit ''4'') (Some (lit ''tv''))) = lit ''4''"
    by (simp add: MpowerOutlet_def)
  show "is_on ?c (MpowerOutlet ?c (lit ''4'') (Some (lit ''tv''))) = Inr False"
    by (simp add: is_on_entry key msg_outlets) (simp add: lit_def)
  have av: "ssh (connect MockSsh ?c) \<noteq> None"
    by (simp add: connect_def MockSsh_def)
  from msg_outlets(1) obtain m where m: "states ?c (lit ''4'') = Some m" by blast
  have "states (snd (turn_on MockSsh (lit ''4'') ?c)) = (states ?c)(lit ''4'' \<mapsto> m(lit ''relay'' \<mapsto> lit ''1''))"
    using av m
    by (simp add: turn_on_def switch_state_available set_relay_def)
  then show "is_on (snd (turn_on MockSsh (lit ''4'') ?c))
     (MpowerOutlet ?c (lit ''4'') (Some (lit ''tv''))) = Inr True"
    by (simp add: is_on_entry key entry_def)
qed

lemma test_power_outlet_turn_off:
  "is_on (snd (update MockSsh device)) (MpowerOutlet (snd (update MockSsh device)) (lit ''1'') (Some (lit ''tv''))) = Inr True"
  "is_on (snd (turn_off MockSsh (lit ''1'') (snd (update MockSsh device))))
     (MpowerOutlet (snd (update MockSsh device)) (lit ''1'') (Some (lit ''tv''))) = Inr False"
proof -
  let ?c = "snd (update MockSsh device)"
  have key: "o_device_number (MpowerOutlet ?c (lit ''1'') (Some (lit ''tv''))) = lit ''1''"
    by (simp add: MpowerOutlet_def)
  show "is_on ?c (MpowerOutlet ?c (lit ''1'') (Some (lit ''tv''))) = Inr True"
    by (simp add: is_on_entry key msg_outlets)
  have av: "ssh (connect MockSsh ?c) \<noteq> None"
    by (simp add: connect_def MockSsh_def)
  from msg_outlets(2) obtain m where m: "states ?c (lit ''1'') = Some m" by blast
  have "states (snd (turn_off MockSsh (lit ''1'') ?c)) = (states ?c)(lit ''1'' \<mapsto> m(lit ''relay'' \<mapsto> lit ''0''))"
    using av m
    by (simp add: turn_off_def switch_state_available set_relay_def)
  then show "is_on (snd (turn_off MockSsh (lit ''1'') ?c))
     (MpowerOutlet ?c (lit ''1'') (Some (lit ''tv''))) = Inr False"
    by (simp add: is_on_entry key entry_def) (simp add: lit_def)
qed

section \<open>The table holds numerals\<close>

lemma takeWhile_all: "list_all P (takeWhile P xs)"
  by (induction xs) auto

lemma not_digit_46: "\<not> is_digit 46"
  by (simp add: is_digit_low)

lemma py_float_digits:
  assumes "i \<noteq> []" "list_all is_digit i"
  shows "py_float i \<noteq> None"
proof -
  from assms(2) have tw: "takeWhile is_digit i = i" and dw: "dropWhile is_digit i = []"
    by (simp_all add: list_all_iff)
  show ?thesis
    unfolding py_float_def Let_def tw dw using assms(1) by simp
qed

lemma py_float_fraction:
  assumes "i \<noteq> []" "list_all is_digit i" "f \<noteq> []" "list_all is_digit f"
  shows "py_float (i @ 46 # f) \<noteq> None"
proof -
  from assms(2) have tw: "takeWhile is_digit (i @ 46 # f) = i"
    and dw: "dropWhile is_digit (i @ 46 # f) = 46 # f"
    using not_digit_46 by (simp_all add: list_all_iff takeWhile_append2 dropWhile_append2)
  show ?thesis
    unfolding py_float_def Let_def tw dw using assms(1,3,4) by simp
qed

lemma re_match_numeral:
  assumes "re_match s = Some [name, key, v]"
  shows "py_float v \<noteq> None"
proof -
  from assms obtain r3 r5 where
    "(let i = takeWhile is_digit r3 in i \<noteq> [] \<and> v = i)
     \<or> (let i = takeWhile is_digit r3; f = takeWhile is_digit r5
        in i \<noteq> [] \<and> f \<noteq> [] \<and> v = i @ 46 # f)"
    by (auto simp: re_match_def Let_def split: if_splits list.splits)
  then show ?thesis
  proof
    assume "let i = takeWhile is_digit r3 in i \<noteq> [] \<and> v = i"
    then show ?thesis
      using py_float_digits [of "takeWhile is_digit r3"] takeWhile_all [of is_digit r3]
      by (simp add: Let_def)
  next
    assume "let i = takeWhile is_digit r3; f = takeWhile is_digit r5
        in i \<noteq> [] \<and> f \<noteq> [] \<and> v = i @ 46 # f"
    then show ?thesis
      using py_float_fraction [of "takeWhile is_digit r3" "takeWhile is_digit r5"]
        takeWhile_all [of is_digit r3] takeWhile_all [of is_digit r5]
      by (simp add: Let_def)
  qed
qed

lemma line_match_numeral: "line_match l = Some [name, key, v] \<Longrightarrow> py_float v \<noteq> None"
  by (auto simp: line_match_def dest: re_match_numeral split: sum.splits)

lemma numeric_step: "numeric st \<Longrightarrow> numeric (step l st)"
proof (cases "line_match l")
  case None
  assume "numeric st"
  with None show ?thesis by (simp add: step_def)
next
  case (Some g)
  assume n: "numeric st"
  from Some obtain name key v where g: "g = [name, key, v]"
    using line_match_groups by blast
  with Some have "py_float v \<noteq> None" using line_match_numeral by blast
  with n Some g show ?thesis by (auto simp: step_def numeric_def entry_store)
qed

lemma numeric_update_loop: "numeric st \<Longrightarrow> numeric (snd (update_loop ls st))"
proof (induction ls arbitrary: st)
  case Nil
  then show ?case by simp
next
  case (Cons x xs)
  then show ?case by (simp add: update_loop_Cons numeric_step del: update_loop.simps)
qed

lemma numeric_update: "numeric (states d) \<Longrightarrow> numeric (states (snd (update env d)))"
  by (cases "ssh (connect env d) = None")
    (simp_all add: update_available update_unavailable numeric_update_loop)

lemma py_float_0_1: "py_float (lit ''0'') \<noteq> None" "py_float (lit ''1'') \<noteq> None"
  by (simp_all add: py_float_def lit_def is_digit_low)

lemma numeric_write:
  assumes "numeric st" "st key = Some m" "py_float v \<noteq> None"
  shows "numeric (st(key \<mapsto> m(lit ''relay'' \<mapsto> v)))"
  using assms unfolding numeric_def entry_def
  by (auto split: option.splits if_splits)

lemma numeric_turn_on: "numeric (states d) \<Longrightarrow> numeric (states (snd (turn_on env key d)))"
  using turn_on_states [of env key d] numeric_write [of "states d" key _ "lit ''1''"]
    py_float_0_1 by auto

lemma numeric_turn_off: "numeric (states d) \<Longrightarrow> numeric (states (snd (turn_off env key d)))"
  using turn_off_states [of env key d] numeric_write [of "states d" key _ "lit ''0''"]
    py_float_0_1 by auto

lemma numeric_fresh: "numeric (states (MpowerDevice name host username password timeout))"
  by (simp add: numeric_def MpowerDevice_def entry_def)

section \<open>What the pattern matches\<close>

text \<open>
  \<open>re_match\<close> follows one path through the pattern. It agrees with the pattern read as
  a description of strings: a string matches, with these groups, exactly when it is a
  name of letters and underscores, a key of digits, a colon and a numeral, in that
  order and with at most a final newline after them. No string splits in two such
  ways, so that the order in which a backtracking matcher tries the splits does not
  show in the groups. \<open>py_float\<close> is defined on the numerals and on nothing else.
\<close>

lemma run_of:
  "list_all P xs \<Longrightarrow> ys = [] \<or> \<not> P (hd ys) \<Longrightarrow>
   takeWhile P (xs @ ys) = xs \<and> dropWhile P (xs @ ys) = ys"
  by (cases ys) (auto simp: list_all_iff takeWhile_append2 dropWhile_append2)

lemma name_char_not_digit: "is_name_char c \<Longrightarrow> \<not> is_digit c"
  by (auto simp: is_name_char_def is_digit_low)

lemma not_digits: "\<not> is_digit 58" "\<not> is_digit 46" "\<not> is_digit 10"
  by (simp_all add: is_digit_low)

lemma re_match_sound:
  assumes "re_match s = Some [name, key, v]"
  shows "\<exists>nl. at_end nl \<and> s = name @ key @ 58 # v @ nl
          \<and> name \<noteq> [] \<and> list_all is_name_char name
          \<and> key \<noteq> [] \<and> list_all is_digit key \<and> numeral v"
proof -
  let ?r1 = "dropWhile is_name_char s"
  let ?r2 = "dropWhile is_digit ?r1"
  have s: "s = takeWhile is_name_char s @ takeWhile is_digit ?r1 @ ?r2"
    by simp
  from assms obtain r3 where r2: "?r2 = 58 # r3"
    and name: "name = takeWhile is_name_char s" "name \<noteq> []"
    and key: "key = takeWhile is_digit ?r1" "key \<noteq> []"
    by (auto simp: re_match_def Let_def split: if_splits list.splits)
  have ln: "list_all is_name_char name" and lk: "list_all is_digit key"
    unfolding name key by (rule takeWhile_all)+
  have r3: "r3 = takeWhile is_digit r3 @ dropWhile is_digit r3" by simp
  from assms r2 consider
    (whole) "takeWhile is_digit r3 \<noteq> []" "at_end (dropWhile is_digit r3)"
      "v = takeWhile is_digit r3"
    | (fraction) r5 where "takeWhile is_digit r3 \<noteq> []" "dropWhile is_digit r3 = 46 # r5"
      "takeWhile is_digit r5 \<noteq> []" "at_end (dropWhile is_digit r5)"
      "v = takeWhile is_digit r3 @ 46 # takeWhile is_digit r5"
    by (auto simp: re_match_def Let_def split: if_splits list.splits)
  then show ?thesis
  proof cases
    case whole
    have "numeral v"
      unfolding numeral_def using whole takeWhile_all [of is_digit r3]
      by (intro exI [of _ v] exI [of _ "[]"]) simp
    moreover have "s = name @ key @ 58 # v @ dropWhile is_digit r3"
      using s r2 r3 name key whole by simp
    ultimately show ?thesis
      using whole(2) name(2) key(2) ln lk
      by (intro exI [of _ "dropWhile is_digit r3"] conjI) assumption+
  next
    case fraction
    have r5: "r5 = takeWhile is_digit r5 @ dropWhile is_digit r5" by simp
    have "numeral v"
      unfolding numeral_def
      using fraction takeWhile_all [of is_digit r3] takeWhile_all [of is_digit r5]
      by (intro exI [of _ "takeWhile is_digit r3"] exI [of _ "takeWhile is_digit r5"]) simp
    moreover have "s = name @ key @ 58 # v @ dropWhile is_digit r5"
      using s r2 r3 r5 name key fraction
      by (metis append.assoc append_Cons)
    ultimately show ?thesis
      using fraction(4) name(2) key(2) ln lk
      by (intro exI [of _ "dropWhile is_digit r5"] conjI) assumption+
  qed
qed

lemma re_match_complete:
  assumes "at_end nl" "s = name @ key @ 58 # v @ nl"
    "name \<noteq> []" "list_all is_name_char name" "key \<noteq> []" "list_all is_digit key"
    "numeral v"
  shows "re_match s = Some [name, key, v]"
proof -
  from assms(5,6) have "\<not> is_name_char (hd key)"
    using name_char_not_digit by (cases key) auto
  with assms(4,5) have n: "takeWhile is_name_char s = name"
    "dropWhile is_name_char s = key @ 58 # v @ nl"
    unfolding assms(2) using run_of [of is_name_char name "key @ 58 # v @ nl"] by simp_all
  have k: "takeWhile is_digit (key @ 58 # v @ nl) = key"
    "dropWhile is_digit (key @ 58 # v @ nl) = 58 # v @ nl"
    using run_of [of is_digit key "58 # v @ nl"] assms(6) not_digits by simp_all
  have nl: "nl = [] \<or> \<not> is_digit (hd nl)"
    using assms(1) not_digits by (auto simp: at_end_def)
  from assms(7) obtain i f where i: "i \<noteq> []" "list_all is_digit i" "list_all is_digit f"
    and v: "v = i \<or> (f \<noteq> [] \<and> v = i @ 46 # f)"
    unfolding numeral_def by blast
  from v show ?thesis
  proof
    assume "v = i"
    moreover have "takeWhile is_digit (i @ nl) = i" "dropWhile is_digit (i @ nl) = nl"
      using run_of [of is_digit i nl] i nl by simp_all
    ultimately show ?thesis
      using n k i assms(1,3,5) by (simp add: re_match_def Let_def)
  next
    assume vf: "f \<noteq> [] \<and> v = i @ 46 # f"
    have 1: "takeWhile is_digit (i @ 46 # f @ nl) = i"
      "dropWhile is_digit (i @ 46 # f @ nl) = 46 # f @ nl"
      using run_of [of is_digit i "46 # f @ nl"] i not_digits by simp_all
    have 2: "takeWhile is_digit (f @ nl) = f" "dropWhile is_digit (f @ nl) = nl"
      using run_of [of is_digit f nl] i nl by simp_all
    have 3: "\<not> at_end (46 # f @ nl)"
      using vf by (simp add: at_end_def)
    show ?thesis
      using n k i vf assms(1,3,5) 1 2 3 by (simp add: re_match_def Let_def)
  qed
qed

lemma re_match_iff:
  "re_match s = Some [name, key, v] \<longleftrightarrow>
     (\<exists>nl. at_end nl \<and> s = name @ key @ 58 # v @ nl
        \<and> name \<noteq> [] \<and> list_all is_name_char name
        \<and> key \<noteq> [] \<and> list_all is_digit key \<and> numeral v)"
  using re_match_sound re_match_complete by blast

lemma py_float_numeral: "py_float v \<noteq> None \<longleftrightarrow> numeral v"
proof
  assume "numeral v"
  then obtain i f where "i \<noteq> []" "list_all is_digit i" "list_all is_digit f"
    "v = i \<or> (f \<noteq> [] \<and> v = i @ 46 # f)"
    unfolding numeral_def by blast
  then show "py_float v \<noteq> None"
    using py_float_digits [of i] py_float_fraction [of i f] by blast
next
  assume a: "py_float v \<noteq> None"
  let ?i = "takeWhile is_digit v"
  let ?r = "dropWhile is_digit v"
  have v: "v = ?i @ ?r" by simp
  from a have i: "?i \<noteq> []"
    by (auto simp: py_float_def Let_def split: if_splits)
  show "numeral v"
  proof (cases ?r)
    case Nil
    with v have "v = ?i" by simp
    with i takeWhile_all [of is_digit v] show ?thesis
      unfolding numeral_def
      by (intro exI [of _ ?i] exI [of _ "[]"]) simp
  next
    case (Cons p f)
    with a i have f: "p = 46" "f \<noteq> []" "list_all is_digit f"
      by (auto simp: py_float_def Let_def split: if_splits)
    from v Cons f(1) have "v = ?i @ 46 # f" by simp
    with i f takeWhile_all [of is_digit v] show ?thesis
      unfolding numeral_def
      by (intro exI [of _ ?i] exI [of _ f]) simp
  qed
qed

section \<open>Readings of an outlet\<close>

lemma reading_entry:
  "entry (states c) (o_device_number out) metric = Some v \<Longrightarrow>
   reading c out metric = map_option Inr (py_float v)"
  by (auto simp: reading_def entry_def subscript2_def split: option.splits)

text \<open>Doubles whose mantissa and exponent are well known: 0.1, 1, 0, and the two
  neighbours of \<open>2 ^ 53 + 2\<close> that lie halfway between doubles.\<close>

lemma double_examples:
  "py_float (lit ''0.1'') = Some (Finite 7205759403792794 (- 56))"
  "py_float (lit ''1'') = Some (Finite 4503599627370496 (- 52))"
  "py_float (lit ''0.0'') = Some (Finite 0 (- 1074))"
  "py_float (lit ''9007199254740993'') = Some (Finite 4503599627370496 1)"
  "py_float (lit ''9007199254740995'') = Some (Finite 4503599627370498 1)"
  "py_float (lit ''1e5'') = None"
  by (simp_all add: float_defs)

lemma float_active_pwr: "py_float (lit ''27.129834473'') = Some (Finite 7636369526451627 (- 48))"
  by (simp add: float_defs)

lemma float_divided: "div_1000 (Finite 7636369526451627 (- 48)) = Finite 7819642395086466 (- 58)"
  by (simp add: float_defs)

lemma float_expected: "py_float (lit ''0.027129834473'') = Some (Finite 7819642395086466 (- 58))"
  by (simp add: float_defs)

lemma float_pf: "py_float (lit ''0.91073511'') = Some (Finite 8203172604058455 (- 53))"
  by (simp add: float_defs)

lemma msg_outlet_2:
  "entry msg_table (lit ''2'') (lit ''relay'') = Some (lit ''1'')"
  "entry msg_table (lit ''2'') (lit ''active_pwr'') = Some (lit ''27.129834473'')"
  "entry msg_table (lit ''2'') (lit ''pf'') = Some (lit ''0.91073511'')"
  "entry msg_table (lit ''2'') (lit ''energy_sum'') = Some (lit ''124.6875'')"
  "entry msg_table (lit ''2'') (lit ''v_rms'') = Some (lit ''233.23304367'')"
  "entry msg_table (lit ''2'') (lit ''i_rms'') = Some (lit ''0.127721786'')"
  by (simp_all add: msg_table_def entry_def lit_def)

lemma float_outlet_2:
  "py_float (lit ''124.6875'') = Some (Finite 8774102789652480 (- 46))"
  "py_float (lit ''233.23304367'') = Some (Finite 8206158191896083 (- 45))"
  "py_float (lit ''0.127721786'') = Some (Finite 4601662302693554 (- 55))"
  by (simp_all add: float_defs)

lemma reading_numeric:
  assumes "numeric (states c)" "entry (states c) (o_device_number out) metric = Some v"
  shows "\<exists>x. py_float v = Some x \<and> reading c out metric = Some (Inr x)"
proof -
  from assms have "py_float v \<noteq> None" unfolding numeric_def by blast
  then obtain x where "py_float v = Some x" by auto
  with assms(2) show ?thesis by (simp add: reading_entry)
qed

text \<open>
  C6, as the code has it. For an outlet with an \<^verbatim>\<open>active_pwr\<close> entry in a table of
  numerals, which every table built by \<^verbatim>\<open>update\<close> and the relay writes is,
  \<^verbatim>\<open>current_power_mwh\<close> is the double \<^verbatim>\<open>float\<close> gives for the entry, divided by 1000. With
  the entries \<^verbatim>\<open>relay\<close> \<^verbatim>\<open>'1'\<close>, \<^verbatim>\<open>active_pwr\<close> \<^verbatim>\<open>'27.129834473'\<close> and \<^verbatim>\<open>pf\<close>
  \<^verbatim>\<open>'0.91073511'\<close>, \<^verbatim>\<open>is_on\<close> is \<^verbatim>\<open>True\<close> and \<^verbatim>\<open>current_power_mwh\<close> is the double that the
  literal \<^verbatim>\<open>0.027129834473\<close> denotes; and when the outlet has its \<^verbatim>\<open>energy_sum\<close>, \<^verbatim>\<open>v_rms\<close>
  and \<^verbatim>\<open>i_rms\<close> entries as well, the attribute \<^verbatim>\<open>power_factor\<close> is the double that
  \<^verbatim>\<open>0.91073511\<close> denotes.
\<close>

theorem outlet_readings:
  "(numeric (states c) \<and> entry (states c) (o_device_number out) (lit ''active_pwr'') = Some v
      \<longrightarrow> (\<exists>x. py_float v = Some x \<and> current_power_mwh c out = Some (Inr (div_1000 x))))
   \<and> (entry (states c) (o_device_number out) (lit ''relay'') = Some (lit ''1'')
      \<longrightarrow> is_on c out = Inr True)
   \<and> (entry (states c) (o_device_number out) (lit ''active_pwr'') = Some (lit ''27.129834473'')
      \<longrightarrow> current_power_mwh c out = map_option Inr (py_float (lit ''0.027129834473'')))
   \<and> (numeric (states c)
       \<and> entry (states c) (o_device_number out) (lit ''pf'') = Some (lit ''0.91073511'')
       \<and> entry (states c) (o_device_number out) (lit ''energy_sum'') = Some e
       \<and> entry (states c) (o_device_number out) (lit ''v_rms'') = Some u
       \<and> entry (states c) (o_device_number out) (lit ''active_pwr'') = Some p
       \<and> entry (states c) (o_device_number out) (lit ''i_rms'') = Some i
      \<longrightarrow> (\<exists>attrs. device_state_attributes c out = Some (Inr attrs)
             \<and> map_of attrs ''power_factor'' = py_float (lit ''0.91073511'')))"
proof (intro conjI impI)
  assume "numeric (states c) \<and> entry (states c) (o_device_number out) (lit ''active_pwr'') = Some v"
  then obtain x where "py_float v = Some x" "reading c out (lit ''active_pwr'') = Some (Inr x)"
    using reading_numeric by blast
  then show "\<exists>x. py_float v = Some x \<and> current_power_mwh c out = Some (Inr (div_1000 x))"
    by (simp add: current_power_mwh_def and_then_def)
next
  assume "entry (states c) (o_device_number out) (lit ''relay'') = Some (lit ''1'')"
  then show "is_on c out = Inr True"
    by (auto simp: is_on_def entry_def subscript2_def split: option.splits)
next
  assume "entry (states c) (o_device_number out) (lit ''active_pwr'') = Some (lit ''27.129834473'')"
  then show "current_power_mwh c out = map_option Inr (py_float (lit ''0.027129834473''))"
    by (simp add: current_power_mwh_def reading_entry and_then_def float_active_pwr
        float_divided float_expected del: div_1000.simps)
next
  assume a: "numeric (states c)
       \<and> entry (states c) (o_device_number out) (lit ''pf'') = Some (lit ''0.91073511'')
       \<and> entry (states c) (o_device_number out) (lit ''energy_sum'') = Some e
       \<and> entry (states c) (o_device_number out) (lit ''v_rms'') = Some u
       \<and> entry (states c) (o_device_number out) (lit ''active_pwr'') = Some p
       \<and> entry (states c) (o_device_number out) (lit ''i_rms'') = Some i"
  then have pf: "reading c out (lit ''pf'') = Some (Inr (Finite 8203172604058455 (- 53)))"
    by (simp add: reading_entry float_pf)
  from a obtain xe where "reading c out (lit ''energy_sum'') = Some (Inr xe)"
    using reading_numeric [of c out "lit ''energy_sum''" e] by blast
  moreover from a obtain xu where "reading c out (lit ''v_rms'') = Some (Inr xu)"
    using reading_numeric [of c out "lit ''v_rms''" u] by blast
  moreover from a obtain xp where "reading c out (lit ''active_pwr'') = Some (Inr xp)"
    using reading_numeric [of c out "lit ''active_pwr''" p] by blast
  moreover from a obtain xi where "reading c out (lit ''i_rms'') = Some (Inr xi)"
    using reading_numeric [of c out "lit ''i_rms''" i] by blast
  ultimately show "\<exists>attrs. device_state_attributes c out = Some (Inr attrs)
             \<and> map_of attrs ''power_factor'' = py_float (lit ''0.91073511'')"
    using pf by (simp add: device_state_attributes_def and_then_def float_pf)
qed

theorem outlet_readings_witness:
  "numeric (states (snd (update MockSsh device)))
   \<and> entry (states (snd (update MockSsh device))) (lit ''2'') (lit ''relay'') = Some (lit ''1'')
   \<and> entry (states (snd (update MockSsh device))) (lit ''2'') (lit ''active_pwr'')
       = Some (lit ''27.129834473'')
   \<and> entry (states (snd (update MockSsh device))) (lit ''2'') (lit ''pf'')
       = Some (lit ''0.91073511'')
   \<and> entry (states (snd (update MockSsh device))) (lit ''2'') (lit ''energy_sum'')
       = Some (lit ''124.6875'')
   \<and> entry (states (snd (update MockSsh device))) (lit ''2'') (lit ''v_rms'')
       = Some (lit ''233.23304367'')
   \<and> entry (states (snd (update MockSsh device))) (lit ''2'') (lit ''i_rms'')
       = Some (lit ''0.127721786'')
   \<and> py_float (lit ''27.129834473'') = Some (Finite 7636369526451627 (- 48))
   \<and> py_float (lit ''0.027129834473'') = Some (Finite 7819642395086466 (- 58))
   \<and> py_float (lit ''0.91073511'') = Some (Finite 8203172604058455 (- 53))
   \<and> is_on (snd (update MockSsh device))
        (MpowerOutlet (snd (update MockSsh device)) (lit ''2'') (Some (lit ''tv''))) = Inr True
   \<and> current_power_mwh (snd (update MockSsh device))
        (MpowerOutlet (snd (update MockSsh device)) (lit ''2'') (Some (lit ''tv'')))
       = Some (Inr (Finite 7819642395086466 (- 58)))
   \<and> (\<exists>attrs. device_state_attributes (snd (update MockSsh device))
          (MpowerOutlet (snd (update MockSsh device)) (lit ''2'') (Some (lit ''tv'')))
          = Some (Inr attrs)
        \<and> map_of attrs ''power_factor'' = Some (Finite 8203172604058455 (- 53)))"
proof -
  let ?c = "snd (update MockSsh device)"
  let ?out = "MpowerOutlet ?c (lit ''2'') (Some (lit ''tv''))"
  have st: "states ?c = msg_table" by (simp add: update_MockSsh)
  have key: "o_device_number ?out = lit ''2''" by (simp add: MpowerOutlet_def)
  have num: "numeric (states ?c)"
    by (rule numeric_update) (simp add: device_def numeric_fresh)
  note e = msg_outlet_2 [folded st]
  from outlet_readings [of ?c ?out "lit ''27.129834473''" "lit ''124.6875''"
      "lit ''233.23304367''" "lit ''27.129834473''" "lit ''0.127721786''"]
  have "is_on ?c ?out = Inr True
    \<and> current_power_mwh ?c ?out = map_option Inr (py_float (lit ''0.027129834473''))
    \<and> (\<exists>attrs. device_state_attributes ?c ?out = Some (Inr attrs)
        \<and> map_of attrs ''power_factor'' = py_float (lit ''0.91073511''))"
    using e num by (simp only: key)
  then show ?thesis
    using e num by (simp only: float_expected float_pf float_active_pwr option.map)
qed

text \<open>C6 as stated fails on a dump that has the three lines and no other metric of
  outlet 2: the three entries are stored, and \<^verbatim>\<open>device_state_attributes\<close> raises
  \<^verbatim>\<open>KeyError\<close> at \<^verbatim>\<open>energy_sum\<close>, so that there is no \<^verbatim>\<open>power_factor\<close> to read.\<close>

lemma update_three_metrics:
  "update three_metrics device
     = (Inr (),
        device\<lparr>ssh := Some Pxssh, sent := [CMD_POWER_STATUS],
               states := [lit ''2'' \<mapsto> [lit ''relay'' \<mapsto> lit ''1'',
                                          lit ''active_pwr'' \<mapsto> lit ''27.129834473'',
                                          lit ''pf'' \<mapsto> lit ''0.91073511'']]\<rparr>)"
  by (simp add: three_metrics_def run_defs text_defs crlf_def)

theorem outlet_readings_counterexample:
  "power_lines (before three_metrics)
     = [''relay2:1'' @ [CHR 0x0D], ''active_pwr2:27.129834473'' @ [CHR 0x0D],
        ''pf2:0.91073511'' @ [CHR 0x0D]]
   \<and> fst (update three_metrics device) = Inr ()
   \<and> entry (states (snd (update three_metrics device))) (lit ''2'') (lit ''relay'')
       = Some (lit ''1'')
   \<and> entry (states (snd (update three_metrics device))) (lit ''2'') (lit ''active_pwr'')
       = Some (lit ''27.129834473'')
   \<and> entry (states (snd (update three_metrics device))) (lit ''2'') (lit ''pf'')
       = Some (lit ''0.91073511'')
   \<and> device_state_attributes (snd (update three_metrics device))
        (MpowerOutlet (snd (update three_metrics device)) (lit ''2'') None)
       = Some (Inl KeyError)"
proof -
  have lines: "power_lines (before three_metrics)
     = [''relay2:1'' @ [CHR 0x0D], ''active_pwr2:27.129834473'' @ [CHR 0x0D],
        ''pf2:0.91073511'' @ [CHR 0x0D]]"
    by (simp add: three_metrics_def power_lines_def slice_1_m1_def crlf_def)
  have entries:
    "entry (states (snd (update three_metrics device))) (lit ''2'') (lit ''relay'')
       = Some (lit ''1'')"
    "entry (states (snd (update three_metrics device))) (lit ''2'') (lit ''active_pwr'')
       = Some (lit ''27.129834473'')"
    "entry (states (snd (update three_metrics device))) (lit ''2'') (lit ''pf'')
       = Some (lit ''0.91073511'')"
    "entry (states (snd (update three_metrics device))) (lit ''2'') (lit ''energy_sum'') = None"
    "states (snd (update three_metrics device)) (lit ''2'') \<noteq> None"
    by (simp_all add: update_three_metrics) (simp_all add: entry_def lit_def)
  let ?c = "snd (update three_metrics device)"
  let ?out = "MpowerOutlet ?c (lit ''2'') None"
  have key: "o_device_number ?out = lit ''2''" by (simp add: MpowerOutlet_def)
  have pf: "reading ?c ?out (lit ''pf'') = Some (Inr (Finite 8203172604058455 (- 53)))"
    using entries(3) by (simp add: reading_entry key float_pf)
  have es: "reading ?c ?out (lit ''energy_sum'') = Some (Inl KeyError)"
    using entries(4,5)
    by (auto simp: reading_def key subscript2_def entry_def split: option.splits)
  have "device_state_attributes ?c ?out = Some (Inl KeyError)"
    by (simp add: device_state_attributes_def and_then_def pf es)
  with lines entries(1-3) show ?thesis by (simp add: update_three_metrics)
qed

end
